theory Spec2Isabelle
  imports Complex_Main "HOL-Library.Sublist"
begin

section \<open>The Targon provider adapter\<close>

text \<open>
  A shallow embedding of the TypeScript adapter \<^verbatim>\<open>TargonHandler\<close>. Two variants of the
  class are in the repository: the one in \<^verbatim>\<open>src/api/providers/targon.ts\<close>, which only wraps
  the provider's error message, and the one in the second part of
  \<^verbatim>\<open>src/test/targon-test.ts\<close>, which adds the prompt rewriting, the tool-call synthesis,
  the retry after a 503 and the remedy hints. The specification describes the second one;
  it is embedded as \<open>createMessage\<close>, the first one as \<open>createMessage_provider\<close>.

  Conventions of the embedding.
  \<^item> A JavaScript string is a \<open>string\<close>: a list of code units, restricted to 0..255.
  \<^item> A JavaScript number is an \<open>int\<close> (token counts, timestamps in milliseconds, HTTP
    status codes); the literal \<open>0.7\<close> of the request is the rational \<open>7 / 10\<close>.
  \<^item> An optional or nullable property is an \<open>option\<close>; \<open>None\<close> is \<open>undefined\<close>.
  \<^item> What the adapter reads from outside (the model table of \<^verbatim>\<open>@shared/api\<close>, the
    identifier generator, the clock, the HTTP client, the JSON decoder) is a parameter.
  \<^item> The generator \<open>createMessage\<close> is run to its end: its result lists the fragments it
    yielded, the message of the error it threw if any, and the requests it submitted.
  \<^item> The decorator \<^verbatim>\<open>withRetry\<close> of \<^verbatim>\<open>../retry\<close> is not part of the sources; the embedding
    is of the method that it wraps.
\<close>

subsection \<open>Strings and numbers of the host language\<close>

text \<open>\<^verbatim>\<open>s.includes(t)\<close>: \<open>t\<close> occurs in \<open>s\<close> as a contiguous block.\<close>

fun String_includes :: "'a list \<Rightarrow> 'a list \<Rightarrow> bool" where
  "String_includes [] t = (t = [])"
| "String_includes (c # cs) t = (prefix t (c # cs) \<or> String_includes cs t)"

text \<open>
  \<^verbatim>\<open>s.toLowerCase()\<close> on code units below 256: the letters A to Z and the Latin-1 capitals
  (192 to 222 without the multiplication sign 215) move up by 32.
\<close>

definition toLowerCase_char :: "char \<Rightarrow> char" where
  "toLowerCase_char c =
     (let n = (of_char c :: nat) in
      if (65 \<le> n \<and> n \<le> 90) \<or> (192 \<le> n \<and> n \<le> 222 \<and> n \<noteq> 215)
      then char_of (n + 32) else c)"

definition toLowerCase :: "string \<Rightarrow> string" where
  "toLowerCase s = map toLowerCase_char s"

text \<open>The decimal numeral of an integer, as a template literal or \<^verbatim>\<open>JSON.stringify\<close> prints it.\<close>

function show_digits :: "int \<Rightarrow> string" where
  "show_digits n =
     (if n < 10 then [char_of (48 + n)]
      else show_digits (n div 10) @ [char_of (48 + n mod 10)])"
  by pat_completeness auto
termination
  by (relation "measure nat") auto

declare show_digits.simps [simp del]

definition show_int :: "int \<Rightarrow> string" where
  "show_int i = (if i < 0 then CHR ''-'' # show_digits (- i) else show_digits i)"

fun join :: "string \<Rightarrow> string list \<Rightarrow> string" where
  "join sep [] = []"
| "join sep [x] = x"
| "join sep (x # y # ys) = x @ sep @ join sep (y # ys)"

subsection \<open>JSON values\<close>

text \<open>
  The values that \<^verbatim>\<open>JSON.parse\<close> returns and \<^verbatim>\<open>JSON.stringify\<close> prints. An object is
  the list of its members in insertion order, with distinct keys.
\<close>

datatype json =
    JNull
  | JBool bool
  | JNumber int
  | JString string
  | JArray "json list"
  | JObject "(string \<times> json) list"

definition hex_digit :: "nat \<Rightarrow> char" where
  "hex_digit n = (if n < 10 then char_of (48 + n) else char_of (87 + n))"

text \<open>The escapes of \<^verbatim>\<open>JSON.stringify\<close> inside a string literal.\<close>

definition escape_char :: "char \<Rightarrow> string" where
  "escape_char c =
     (let n = (of_char c :: nat) in
      if n = 0x22 then [CHR 0x5C, CHR 0x22]
      else if n = 0x5C then [CHR 0x5C, CHR 0x5C]
      else if n = 0x08 then [CHR 0x5C, CHR ''b'']
      else if n = 0x09 then [CHR 0x5C, CHR ''t'']
      else if n = 0x0A then [CHR 0x5C, CHR ''n'']
      else if n = 0x0C then [CHR 0x5C, CHR ''f'']
      else if n = 0x0D then [CHR 0x5C, CHR ''r'']
      else if n < 0x20 then [CHR 0x5C, CHR ''u'', CHR ''0'', CHR ''0'',
                              hex_digit (n div 16), hex_digit (n mod 16)]
      else [c])"

definition quote :: "string \<Rightarrow> string" where
  "quote s = [CHR 0x22] @ concat (map escape_char s) @ [CHR 0x22]"

fun JSON_stringify :: "json \<Rightarrow> string" where
  "JSON_stringify JNull = ''null''"
| "JSON_stringify (JBool b) = (if b then ''true'' else ''false'')"
| "JSON_stringify (JNumber n) = show_int n"
| "JSON_stringify (JString s) = quote s"
| "JSON_stringify (JArray xs) = ''['' @ join '','' (map JSON_stringify xs) @ '']''"
| "JSON_stringify (JObject kvs) =
     ''{'' @ join '','' (map (\<lambda>(k, v). quote k @ '':'' @ JSON_stringify v) kvs) @ ''}''"

text \<open>Truthiness, as \<^verbatim>\<open>!x\<close>, \<^verbatim>\<open>x && y\<close> and \<^verbatim>\<open>x ? y : z\<close> test it.\<close>

fun truthy :: "json \<Rightarrow> bool" where
  "truthy JNull = False"
| "truthy (JBool b) = b"
| "truthy (JNumber n) = (n \<noteq> 0)"
| "truthy (JString s) = (s \<noteq> [])"
| "truthy (JArray xs) = True"
| "truthy (JObject kvs) = True"

text \<open>The string a template literal \<^verbatim>\<open>${x}\<close> inserts for a value.\<close>

fun ToString :: "json \<Rightarrow> string" where
  "ToString JNull = ''null''"
| "ToString (JBool b) = (if b then ''true'' else ''false'')"
| "ToString (JNumber n) = show_int n"
| "ToString (JString s) = s"
| "ToString (JArray xs) =
     join '','' (map (\<lambda>x. case x of JNull \<Rightarrow> [] | _ \<Rightarrow> ToString x) xs)"
| "ToString (JObject kvs) = ''[object Object]''"

text \<open>
  \<^verbatim>\<open>x.length > 0\<close> for a truthy value \<open>x\<close>. A string and an array have a length; a number
  and a boolean have none (the comparison of \<open>undefined\<close> is false); an object has the
  member of that name, if any, which the comparison turns into a number. Of the strings
  that read as a number only the plain decimal numerals, between optional blanks, are
  recognised here.
\<close>

definition is_blank :: "char \<Rightarrow> bool" where
  "is_blank c = (c = CHR '' '' \<or> c = CHR 0x09 \<or> c = CHR 0x0A \<or> c = CHR 0x0D)"

definition is_digit :: "char \<Rightarrow> bool" where
  "is_digit c = (48 \<le> (of_char c :: nat) \<and> (of_char c :: nat) \<le> 57)"

definition trim :: "string \<Rightarrow> string" where
  "trim s = rev (dropWhile is_blank (rev (dropWhile is_blank s)))"

definition positive_numeral :: "string \<Rightarrow> bool" where
  "positive_numeral s =
     (let t = trim s in t \<noteq> [] \<and> list_all is_digit t \<and> \<not> list_all (\<lambda>c. c = CHR ''0'') t)"

fun positive_number :: "json \<Rightarrow> bool" where
  "positive_number JNull = False"
| "positive_number (JBool b) = b"
| "positive_number (JNumber n) = (0 < n)"
| "positive_number (JString s) = positive_numeral s"
| "positive_number (JArray xs) = positive_numeral (ToString (JArray xs))"
| "positive_number (JObject kvs) = False"

fun length_positive :: "json \<Rightarrow> bool" where
  "length_positive (JString s) = (s \<noteq> [])"
| "length_positive (JArray xs) = (xs \<noteq> [])"
| "length_positive (JObject kvs) =
     (case map_of kvs ''length'' of None \<Rightarrow> False | Some v \<Rightarrow> positive_number v)"
| "length_positive _ = False"

subsection \<open>A JSON decoder\<close>

text \<open>
  \<^verbatim>\<open>JSON.parse\<close> is a parameter of the adapter's model: a function from text to
  \<open>json option\<close>, \<open>None\<close> where the built-in throws a \<^verbatim>\<open>SyntaxError\<close>. The decoder below
  instantiates it in the examples. It reads the JSON grammar with integer numerals (no
  fraction, no exponent) and code units below 256; the fuel is the length of the text,
  and every call that uses fuel has read a character.
\<close>

definition skip_blanks :: "string \<Rightarrow> string" where
  "skip_blanks s = dropWhile is_blank s"

definition hex_value :: "char \<Rightarrow> nat option" where
  "hex_value c =
     (let n = (of_char c :: nat) in
      if 48 \<le> n \<and> n \<le> 57 then Some (n - 48)
      else if 97 \<le> n \<and> n \<le> 102 then Some (n - 87)
      else if 65 \<le> n \<and> n \<le> 70 then Some (n - 55)
      else None)"

fun decode_string :: "string \<Rightarrow> string \<Rightarrow> (string \<times> string) option" where
  "decode_string acc [] = None"
| "decode_string acc (c # cs) =
     (if c = CHR 0x22 then Some (rev acc, cs)
      else if c = CHR 0x5C then
        (case cs of
           [] \<Rightarrow> None
         | e # r \<Rightarrow>
             if e = CHR 0x22 \<or> e = CHR 0x5C \<or> e = CHR ''/'' then decode_string (e # acc) r
             else if e = CHR ''b'' then decode_string (CHR 0x08 # acc) r
             else if e = CHR ''f'' then decode_string (CHR 0x0C # acc) r
             else if e = CHR ''n'' then decode_string (CHR 0x0A # acc) r
             else if e = CHR ''r'' then decode_string (CHR 0x0D # acc) r
             else if e = CHR ''t'' then decode_string (CHR 0x09 # acc) r
             else if e = CHR ''u'' then
               (case r of
                  a # b # c' # d # r' \<Rightarrow>
                    (case (hex_value a, hex_value b, hex_value c', hex_value d) of
                       (Some 0, Some 0, Some h, Some l) \<Rightarrow>
                         decode_string (char_of (16 * h + l) # acc) r'
                     | _ \<Rightarrow> None)
                | _ \<Rightarrow> None)
             else None)
      else if (of_char c :: nat) < 0x20 then None
      else decode_string (c # acc) cs)"

fun decode_digits :: "int \<Rightarrow> string \<Rightarrow> int \<times> string" where
  "decode_digits n [] = (n, [])"
| "decode_digits n (c # cs) =
     (if is_digit c then decode_digits (10 * n + ((of_char c :: int) - 48)) cs
      else (n, c # cs))"

definition decode_number :: "string \<Rightarrow> (int \<times> string) option" where
  "decode_number s =
     (let (neg, t) = (case s of c # r \<Rightarrow> if c = CHR ''-'' then (True, r) else (False, s)
                      | [] \<Rightarrow> (False, s))
      in case t of
           [] \<Rightarrow> None
         | d # r \<Rightarrow>
             if \<not> is_digit d then None
             else if d = CHR ''0'' \<and> r \<noteq> [] \<and> is_digit (hd r) then None
             else
               (let (n, rest) = decode_digits 0 t
                in if rest \<noteq> [] \<and> (hd rest = CHR ''.'' \<or> hd rest = CHR ''e'' \<or> hd rest = CHR ''E'')
                   then None
                   else Some (if neg then - n else n, rest)))"

text \<open>A later member with the same key replaces the value of the earlier one.\<close>

fun put_member :: "string \<Rightarrow> json \<Rightarrow> (string \<times> json) list \<Rightarrow> (string \<times> json) list" where
  "put_member k v [] = [(k, v)]"
| "put_member k v ((k', v') # kvs) =
     (if k = k' then (k, v) # kvs else (k', v') # put_member k v kvs)"

fun decode_value :: "nat \<Rightarrow> string \<Rightarrow> (json \<times> string) option"
  and decode_elements :: "nat \<Rightarrow> json list \<Rightarrow> string \<Rightarrow> (json \<times> string) option"
  and decode_members :: "nat \<Rightarrow> (string \<times> json) list \<Rightarrow> string \<Rightarrow> (json \<times> string) option"
where
  "decode_value 0 s = None"
| "decode_value (Suc n) s =
     (case skip_blanks s of
        [] \<Rightarrow> None
      | c # r \<Rightarrow>
          if c = CHR 0x22 then
            (case decode_string [] r of None \<Rightarrow> None | Some (t, r') \<Rightarrow> Some (JString t, r'))
          else if c = CHR ''['' then
            (case skip_blanks r of
               [] \<Rightarrow> None
             | c' # r' \<Rightarrow> if c' = CHR '']'' then Some (JArray [], r') else decode_elements n [] r)
          else if c = CHR ''{'' then
            (case skip_blanks r of
               [] \<Rightarrow> None
             | c' # r' \<Rightarrow> if c' = CHR ''}'' then Some (JObject [], r') else decode_members n [] r)
          else if prefix ''true'' (c # r) then Some (JBool True, drop 4 (c # r))
          else if prefix ''false'' (c # r) then Some (JBool False, drop 5 (c # r))
          else if prefix ''null'' (c # r) then Some (JNull, drop 4 (c # r))
          else (case decode_number (c # r) of None \<Rightarrow> None | Some (i, r') \<Rightarrow> Some (JNumber i, r')))"
| "decode_elements 0 acc s = None"
| "decode_elements (Suc n) acc s =
     (case decode_value n s of
        None \<Rightarrow> None
      | Some (v, r) \<Rightarrow>
          (case skip_blanks r of
             [] \<Rightarrow> None
           | c # r' \<Rightarrow>
               if c = CHR '','' then decode_elements n (acc @ [v]) r'
               else if c = CHR '']'' then Some (JArray (acc @ [v]), r')
               else None))"
| "decode_members 0 acc s = None"
| "decode_members (Suc n) acc s =
     (case skip_blanks s of
        [] \<Rightarrow> None
      | q # r \<Rightarrow>
          if q \<noteq> CHR 0x22 then None
          else
            (case decode_string [] r of
               None \<Rightarrow> None
             | Some (k, r1) \<Rightarrow>
                 (case skip_blanks r1 of
                    [] \<Rightarrow> None
                  | c # r2 \<Rightarrow>
                      if c \<noteq> CHR '':'' then None
                      else
                        (case decode_value n r2 of
                           None \<Rightarrow> None
                         | Some (v, r3) \<Rightarrow>
                             (case skip_blanks r3 of
                                [] \<Rightarrow> None
                              | c' # r4 \<Rightarrow>
                                  if c' = CHR '','' then decode_members n (put_member k v acc) r4
                                  else if c' = CHR ''}'' then Some (JObject (put_member k v acc), r4)
                                  else None)))))"

definition decode_json :: "string \<Rightarrow> json option" where
  "decode_json s =
     (case decode_value (Suc (length s)) s of
        None \<Rightarrow> None
      | Some (v, r) \<Rightarrow> if skip_blanks r = [] then Some v else None)"

subsection \<open>Prompt conciseness rewriting\<close>

definition concise_suffix :: string where
  \<open>concise_suffix =
     [CHR 0x0A, CHR 0x0A] @
     ''IMPORTANT: Be extremely concise. Provide only direct answers with no explanations, thinking, or reasoning. No "Let's tackle this" or "First, I need to" statements. Just give the final result or action.''\<close>

text \<open>\<^verbatim>\<open>makePromptConcise\<close> (src/test/targon-test.ts, lines 373 to 386).\<close>

definition makePromptConcise :: "string \<Rightarrow> string" where
  "makePromptConcise systemPrompt =
     (if String_includes (toLowerCase systemPrompt) ''concise''
         \<or> String_includes (toLowerCase systemPrompt) ''brief''
         \<or> String_includes (toLowerCase systemPrompt) ''short''
      then systemPrompt
      else systemPrompt @ concise_suffix)"

text \<open>
  The specification's words for the test, stated without the conversion that the code
  uses: two characters are the same letter when they are equal or are the capital and the
  small form of one of the 26 letters, and a prompt contains a word ignoring case when a
  block of the prompt has the same letters as the word, position by position.
\<close>

definition upper_letters :: string where
  "upper_letters = ''ABCDEFGHIJKLMNOPQRSTUVWXYZ''"

definition lower_letters :: string where
  "lower_letters = ''abcdefghijklmnopqrstuvwxyz''"

definition same_letter :: "char \<Rightarrow> char \<Rightarrow> bool" where
  "same_letter c d \<longleftrightarrow>
     c = d \<or> (c, d) \<in> set (zip upper_letters lower_letters)
           \<or> (d, c) \<in> set (zip upper_letters lower_letters)"

definition contains_ignoring_case :: "string \<Rightarrow> string \<Rightarrow> bool" where
  "contains_ignoring_case s w = (\<exists>p u q. s = p @ u @ q \<and> list_all2 same_letter u w)"

subsection \<open>Model resolution\<close>

text \<open>
  The model table and the default model id are imported from \<^verbatim>\<open>@shared/api\<close>, which is
  not part of the sources: they are parameters. Of a \<^verbatim>\<open>ModelInfo\<close> the adapter reads
  \<^verbatim>\<open>maxTokens\<close> only. The table is an object: \<open>targonModels\<close> maps its own keys to their
  entries, and it inherits the properties of \<^verbatim>\<open>Object.prototype\<close>.
\<close>

record ModelInfo =
  maxTokens :: "int option"

record SharedApi =
  targonModels :: "string \<rightharpoonup> ModelInfo"
  targonDefaultModelId :: string

record ApiHandlerOptions =
  targonApiKey :: "string option"
  apiModelId :: "string option"

text \<open>The names of the properties that every object inherits from \<^verbatim>\<open>Object.prototype\<close>.\<close>

definition Object_prototype_keys :: "string list" where
  "Object_prototype_keys =
     [''constructor'', ''hasOwnProperty'', ''isPrototypeOf'', ''propertyIsEnumerable'',
      ''toLocaleString'', ''toString'', ''valueOf'', ''__proto__'',
      ''__defineGetter__'', ''__defineSetter__'', ''__lookupGetter__'', ''__lookupSetter__'']"

text \<open>
  An inherited value (a function, or the prototype itself) read as a \<^verbatim>\<open>ModelInfo\<close>: it has
  no \<^verbatim>\<open>maxTokens\<close>.
\<close>

definition inherited_value :: ModelInfo where
  "inherited_value = \<lparr>maxTokens = None\<rparr>"

text \<open>\<^verbatim>\<open>k in targonModels\<close>: true of the own keys and of the inherited ones.\<close>

definition table_has :: "SharedApi \<Rightarrow> string \<Rightarrow> bool" where
  "table_has shared k \<longleftrightarrow> targonModels shared k \<noteq> None \<or> k \<in> set Object_prototype_keys"

text \<open>\<^verbatim>\<open>targonModels[k]\<close>: the entry, else the inherited value, else \<open>undefined\<close>.\<close>

definition table_get :: "SharedApi \<Rightarrow> string \<Rightarrow> ModelInfo option" where
  "table_get shared k =
     (case targonModels shared k of
        Some i \<Rightarrow> Some i
      | None \<Rightarrow> if k \<in> set Object_prototype_keys then Some inherited_value else None)"

text \<open>The result \<^verbatim>\<open>{ id, info }\<close>; \<open>info\<close> is \<open>None\<close> where the lookup gives \<open>undefined\<close>.\<close>

record Model =
  model_id :: string
  info :: "ModelInfo option"

text \<open>
  \<^verbatim>\<open>getModel\<close> (the same text in both variants). An empty id is falsy, as a missing one.
\<close>

definition getModel :: "SharedApi \<Rightarrow> ApiHandlerOptions \<Rightarrow> Model" where
  "getModel shared options =
     (let default = \<lparr>model_id = targonDefaultModelId shared,
                     info = table_get shared (targonDefaultModelId shared)\<rparr>
      in case apiModelId options of
           None \<Rightarrow> default
         | Some modelId \<Rightarrow>
             if modelId \<noteq> [] \<and> table_has shared modelId
             then \<lparr>model_id = modelId, info = table_get shared modelId\<rparr>
             else default)"

subsection \<open>Messages, requests and provider events\<close>

text \<open>
  A message is \<^verbatim>\<open>{ role, content }\<close>. The content of an input message
  (\<^verbatim>\<open>Anthropic.Messages.MessageParam\<close>) is a string or a list of content blocks; the
  content of a message of the request is a string.
\<close>

record 'c Message =
  role :: string
  content :: 'c

datatype MessageContent = StringContent string | BlockContent json

text \<open>The argument of \<^verbatim>\<open>client.chat.completions.create\<close>.\<close>

record ChatCompletionCreateParams =
  model :: string
  messages :: "string Message list"
  stream :: bool
  temperature :: rat
  max_tokens :: int
  tools :: "json list option"

text \<open>
  An event of the provider's stream. The adapter reads \<^verbatim>\<open>choices[0].delta.content\<close>,
  \<^verbatim>\<open>choices[0].delta.tool_calls\<close> and \<^verbatim>\<open>usage\<close>, and also, since the shape of the events
  is not trusted, \<^verbatim>\<open>choices[0].message.content\<close>, a first choice that is itself a string,
  a \<^verbatim>\<open>content\<close> member of the event, and an event that is itself a string.
\<close>

record Usage =
  prompt_tokens :: "int option"
  completion_tokens :: "int option"

record FunctionDelta =
  name :: "string option"
  arguments :: "string option"

text \<open>The member \<^verbatim>\<open>function\<close> of a tool call.\<close>

record ToolCall =
  function_delta :: "FunctionDelta option"

record Delta =
  delta_content :: "string option"
  tool_calls :: "ToolCall list option"

record ChoiceMessage =
  message_content :: "string option"

datatype Choice =
    ChoiceObject "Delta option" "ChoiceMessage option"
  | ChoiceString string

record ChunkObject =
  choices :: "Choice list option"
  chunk_content :: "string option"
  usage :: "Usage option"

datatype Chunk = Chunk ChunkObject | ChunkString string

text \<open>
  An error thrown by the client, with the members the adapter reads. A stream delivers
  its events and then ends, or throws; a call of \<^verbatim>\<open>create\<close> that is rejected is a stream
  that throws before its first event.
\<close>

record ApiError =
  status :: "int option"
  message :: string

record ProviderStream =
  events :: "Chunk list"
  failure :: "ApiError option"

text \<open>
  What one call of \<open>createMessage\<close> reads from its surroundings: the identifier that
  \<^verbatim>\<open>uuidv4()\<close> returns, the clock at the start and when the metrics are computed, the
  answer of the client to its \<open>n\<close>-th request of this call, and \<^verbatim>\<open>JSON.parse\<close>.
\<close>

record Runtime =
  uuidv4 :: string
  Date_now_start :: int
  Date_now_end :: int
  create :: "nat \<Rightarrow> ChatCompletionCreateParams \<Rightarrow> ProviderStream"
  JSON_parse :: "string \<Rightarrow> json option"

text \<open>A fragment \<^verbatim>\<open>{ type: "text", text }\<close> of the result.\<close>

datatype ApiStreamChunk = ApiStreamTextChunk (fragment_text: string)

text \<open>
  A generator run to its end: what it yielded, in order, the message of the
  \<^verbatim>\<open>Error\<close> it threw (\<open>None\<close> when it returned), and the requests it submitted.
\<close>

record Outcome =
  yielded :: "ApiStreamChunk list"
  thrown :: "string option"
  requests :: "ChatCompletionCreateParams list"

subsection \<open>Metrics and the response summary (src/api/transform/targon-format.ts)\<close>

record ApiMetrics =
  tokensIn :: int
  tokensOut :: int
  tokensTotal :: int
  timeTotal :: int

text \<open>\<^verbatim>\<open>getApiMetrics\<close>; the last argument is the value of \<^verbatim>\<open>Date.now()\<close> in its body.\<close>

definition getApiMetrics :: "int \<Rightarrow> int \<Rightarrow> int \<Rightarrow> int \<Rightarrow> ApiMetrics" where
  "getApiMetrics startTime tokIn tokOut endTime =
     \<lparr>tokensIn = tokIn, tokensOut = tokOut, tokensTotal = tokIn + tokOut,
      timeTotal = endTime - startTime\<rparr>"

text \<open>The optional member \<^verbatim>\<open>metrics\<close> of a response, each of its members optional.\<close>

record ResponseMetrics =
  metrics_tokensIn :: "int option"
  metrics_tokensOut :: "int option"
  metrics_tokensTotal :: "int option"
  metrics_timeTotal :: "int option"

record ApiResponse =
  response_id :: string
  response_model :: string
  created :: int
  response_content :: string
  metrics :: "ResponseMetrics option"

text \<open>
  The object that \<^verbatim>\<open>TargonFormatResponse\<close> passes to \<^verbatim>\<open>JSON.stringify\<close>; a member whose
  value is \<open>undefined\<close> is not printed.
\<close>

definition optional_number :: "ResponseMetrics option \<Rightarrow> (ResponseMetrics \<Rightarrow> int option) \<Rightarrow> json option" where
  "optional_number m field = map_option JNumber (Option.bind m field)"

definition defined_members :: "(string \<times> json option) list \<Rightarrow> (string \<times> json) list" where
  "defined_members kvs = concat (map (\<lambda>(k, v). case v of None \<Rightarrow> [] | Some j \<Rightarrow> [(k, j)]) kvs)"

definition summary_object :: "ApiResponse \<Rightarrow> json" where
  "summary_object response =
     JObject (defined_members
       [(''id'', Some (JString (response_id response))),
        (''model'', Some (JString (response_model response))),
        (''created'', Some (JNumber (created response))),
        (''content'', Some (JString (response_content response))),
        (''tokensIn'', optional_number (metrics response) metrics_tokensIn),
        (''tokensOut'', optional_number (metrics response) metrics_tokensOut),
        (''tokensTotal'', optional_number (metrics response) metrics_tokensTotal),
        (''timeTotal'', optional_number (metrics response) metrics_timeTotal)])"

definition TargonFormatResponse :: "ApiResponse \<Rightarrow> string" where
  "TargonFormatResponse response = JSON_stringify (summary_object response)"

subsection \<open>Consuming the stream (src/test/targon-test.ts, lines 185 to 255)\<close>

text \<open>The variables of \<open>createMessage\<close> that the loops update, and the fragments yielded.\<close>

record LoopState =
  responseText :: string
  state_tokensIn :: int
  state_tokensOut :: int
  fragments :: "ApiStreamChunk list"

definition initial_state :: LoopState where
  "initial_state = \<lparr>responseText = [], state_tokensIn = 0, state_tokensOut = 0, fragments = []\<rparr>"

text \<open>A string that is present and not empty is truthy; \<open>x || ""\<close> is the string or empty.\<close>

definition or_empty :: "string option \<Rightarrow> string" where
  "or_empty x = (case x of None \<Rightarrow> [] | Some s \<Rightarrow> s)"

definition or_zero :: "int option \<Rightarrow> int" where
  "or_zero x = (case x of None \<Rightarrow> 0 | Some n \<Rightarrow> n)"

text \<open>Lines 190 to 205: the text of an event, looked up in the shapes in this order.\<close>

definition choice_content :: "Choice \<Rightarrow> string" where
  "choice_content c =
     (case c of
        ChoiceString s \<Rightarrow> s
      | ChoiceObject d m \<Rightarrow>
          if or_empty (Option.bind d delta_content) \<noteq> [] then or_empty (Option.bind d delta_content)
          else or_empty (Option.bind m message_content))"

definition extract_content :: "Chunk \<Rightarrow> string" where
  "extract_content chunk =
     (case chunk of
        ChunkString s \<Rightarrow> s
      | Chunk c \<Rightarrow>
          (case choices c of
             Some (first # rest) \<Rightarrow> choice_content first
           | _ \<Rightarrow> or_empty (chunk_content c)))"

text \<open>Line 218: the tool calls of the first choice's delta.\<close>

definition chunk_tool_calls :: "Chunk \<Rightarrow> ToolCall list" where
  "chunk_tool_calls chunk =
     (case chunk of
        ChunkString s \<Rightarrow> []
      | Chunk c \<Rightarrow>
          (case choices c of
             Some (ChoiceObject (Some d) m # rest) \<Rightarrow>
               (case tool_calls d of None \<Rightarrow> [] | Some tcs \<Rightarrow> tcs)
           | _ \<Rightarrow> []))"

text \<open>
  Lines 222 to 242, the body of the \<^verbatim>\<open>try\<close>: it throws (\<open>Inl\<close>) when the arguments do not
  parse or parse to \<open>null\<close>, skips the tool call (\<open>Inr None\<close>) when the question is missing
  or falsy, and otherwise builds the tagged text.
\<close>

datatype ToolCallError = SyntaxError | TypeError

definition get_member :: "json \<Rightarrow> string \<Rightarrow> json option" where
  "get_member j k = (case j of JObject kvs \<Rightarrow> map_of kvs k | _ \<Rightarrow> None)"

definition tool_call_text :: "json \<Rightarrow> string option" where
  "tool_call_text args =
     (case get_member args ''question'' of
        None \<Rightarrow> None
      | Some question \<Rightarrow>
          if \<not> truthy question then None
          else
            (let optionsText =
               (case get_member args ''options'' of
                  None \<Rightarrow> []
                | Some options \<Rightarrow>
                    if truthy options \<and> length_positive options
                    then [CHR 0x0A] @ ''<options>'' @ [CHR 0x0A] @ JSON_stringify options
                         @ [CHR 0x0A] @ ''</options>''
                    else [])
             in Some (''<ask_followup_question>'' @ [CHR 0x0A] @ ''<question>''
                      @ ToString question @ ''</question>'' @ optionsText
                      @ [CHR 0x0A] @ ''</ask_followup_question>'')))"

definition try_tool_call :: "(string \<Rightarrow> json option) \<Rightarrow> FunctionDelta \<Rightarrow> ToolCallError + string option" where
  "try_tool_call parse f =
     (case (if or_empty (arguments f) \<noteq> [] then parse (or_empty (arguments f))
            else Some (JObject [])) of
        None \<Rightarrow> Inl SyntaxError
      | Some JNull \<Rightarrow> Inl TypeError
      | Some args \<Rightarrow> Inr (tool_call_text args))"

text \<open>Lines 220 to 247: one tool call; the \<^verbatim>\<open>catch\<close> logs the error and goes on.\<close>

definition tool_call_fragments :: "(string \<Rightarrow> json option) \<Rightarrow> ToolCall \<Rightarrow> ApiStreamChunk list" where
  "tool_call_fragments parse toolCall =
     (case function_delta toolCall of
        None \<Rightarrow> []
      | Some f \<Rightarrow>
          if name f = Some ''ask_followup_question''
          then (case try_tool_call parse f of
                  Inl e \<Rightarrow> []
                | Inr None \<Rightarrow> []
                | Inr (Some t) \<Rightarrow> [ApiStreamTextChunk t])
          else [])"

text \<open>The fragments that one event of the first attempt yields.\<close>

definition chunk_fragments :: "(string \<Rightarrow> json option) \<Rightarrow> Chunk \<Rightarrow> ApiStreamChunk list" where
  "chunk_fragments parse chunk =
     (if extract_content chunk \<noteq> [] then [ApiStreamTextChunk (extract_content chunk)] else [])
     @ concat (map (tool_call_fragments parse) (chunk_tool_calls chunk))"

definition chunk_usage :: "Chunk \<Rightarrow> Usage option" where
  "chunk_usage chunk = (case chunk of ChunkString s \<Rightarrow> None | Chunk c \<Rightarrow> usage c)"

text \<open>One turn of the loop of the first attempt.\<close>

definition process_chunk :: "(string \<Rightarrow> json option) \<Rightarrow> LoopState \<Rightarrow> Chunk \<Rightarrow> LoopState" where
  "process_chunk parse st chunk =
     \<lparr>responseText = responseText st @ extract_content chunk,
      state_tokensIn = (case chunk_usage chunk of None \<Rightarrow> state_tokensIn st
                        | Some u \<Rightarrow> or_zero (prompt_tokens u)),
      state_tokensOut = (case chunk_usage chunk of None \<Rightarrow> state_tokensOut st
                         | Some u \<Rightarrow> or_zero (completion_tokens u)),
      fragments = fragments st @ chunk_fragments parse chunk\<rparr>"

text \<open>Lines 292 to 310: one turn of the loop of the retry; only the delta's content is read.\<close>

definition retry_content :: "Chunk \<Rightarrow> string" where
  "retry_content chunk =
     (case chunk of
        ChunkString s \<Rightarrow> []
      | Chunk c \<Rightarrow>
          (case choices c of
             Some (ChoiceObject (Some d) m # rest) \<Rightarrow> or_empty (delta_content d)
           | _ \<Rightarrow> []))"

definition process_retry_chunk :: "LoopState \<Rightarrow> Chunk \<Rightarrow> LoopState" where
  "process_retry_chunk st chunk =
     st\<lparr>responseText := responseText st @ retry_content chunk,
        fragments := fragments st
          @ (if retry_content chunk \<noteq> [] then [ApiStreamTextChunk (retry_content chunk)] else [])\<rparr>"

text \<open>Lines 258 to 276 and 313 to 331: the summary fragment.\<close>

definition summary_response :: "Runtime \<Rightarrow> Model \<Rightarrow> LoopState \<Rightarrow> ApiResponse" where
  "summary_response rt mdl st =
     (let m = getApiMetrics (Date_now_start rt) (state_tokensIn st) (state_tokensOut st)
                (Date_now_end rt)
      in \<lparr>response_id = uuidv4 rt,
          response_model = model_id mdl,
          created = Date_now_start rt div 1000,
          response_content = responseText st,
          metrics = Some \<lparr>metrics_tokensIn = Some (tokensIn m),
                          metrics_tokensOut = Some (tokensOut m),
                          metrics_tokensTotal = Some (tokensTotal m),
                          metrics_timeTotal = Some (timeTotal m)\<rparr>\<rparr>)"

definition summary_fragment :: "Runtime \<Rightarrow> Model \<Rightarrow> LoopState \<Rightarrow> ApiStreamChunk" where
  "summary_fragment rt mdl st = ApiStreamTextChunk (TargonFormatResponse (summary_response rt mdl st))"

subsection \<open>Request construction (src/test/targon-test.ts, lines 106 to 183)\<close>

definition formattedMessages :: "string \<Rightarrow> MessageContent Message list \<Rightarrow> string Message list" where
  "formattedMessages prompt msgs =
     \<lparr>role = ''system'', content = prompt\<rparr>
     # map (\<lambda>msg. \<lparr>role = role msg,
                    content = (case content msg of
                                 StringContent s \<Rightarrow> s
                               | BlockContent j \<Rightarrow> JSON_stringify j)\<rparr>) msgs"

text \<open>The one tool definition, attached when a message's text names the tool.\<close>

definition ask_followup_question_tool :: json where
  "ask_followup_question_tool =
     JObject
       [(''type'', JString ''function''),
        (''function'', JObject
           [(''name'', JString ''ask_followup_question''),
            (''description'', JString
               ''Ask the user a question to gather additional information needed to complete the task''),
            (''parameters'', JObject
               [(''type'', JString ''object''),
                (''properties'', JObject
                   [(''question'', JObject
                       [(''type'', JString ''string''),
                        (''description'', JString ''The question to ask the user'')]),
                    (''options'', JObject
                       [(''type'', JString ''array''),
                        (''description'', JString
                           ''Optional array of 2-5 options for the user to choose from''),
                        (''items'', JObject [(''type'', JString ''string'')])])]),
                (''required'', JArray [JString ''question''])])])]"

definition mentions_tool :: "MessageContent Message \<Rightarrow> bool" where
  "mentions_tool m =
     (case content m of
        StringContent s \<Rightarrow> s \<noteq> [] \<and> String_includes s ''ask_followup_question''
      | BlockContent j \<Rightarrow> False)"

text \<open>\<^verbatim>\<open>model.info.maxTokens || 4096\<close>: a missing maximum and the maximum 0 are falsy.\<close>

definition maxTokens_or_4096 :: "ModelInfo \<Rightarrow> int" where
  "maxTokens_or_4096 i = (if or_zero (maxTokens i) \<noteq> 0 then or_zero (maxTokens i) else 4096)"

definition first_request :: "Model \<Rightarrow> ModelInfo \<Rightarrow> string Message list \<Rightarrow> MessageContent Message list
    \<Rightarrow> ChatCompletionCreateParams" where
  "first_request mdl i openAiMessages msgs =
     \<lparr>model = model_id mdl,
      messages = openAiMessages,
      stream = True,
      temperature = 7 / 10,
      max_tokens = maxTokens_or_4096 i,
      tools = (if list_ex mentions_tool msgs then Some [ask_followup_question_tool] else None)\<rparr>"

text \<open>Lines 284 to 290: the request of the retry.\<close>

definition simple_request :: "Model \<Rightarrow> string Message list \<Rightarrow> ChatCompletionCreateParams" where
  "simple_request mdl openAiMessages =
     \<lparr>model = model_id mdl,
      messages = openAiMessages,
      stream = True,
      temperature = 0,
      max_tokens = 1024,
      tools = None\<rparr>"

subsection \<open>Error handling (src/test/targon-test.ts, lines 277 to 365)\<close>

text \<open>Line 279: the test for the error that is retried.\<close>

definition is_503 :: "ApiError \<Rightarrow> bool" where
  "is_503 error = (status error = Some 503 \<or> String_includes (message error) ''503'')"

definition hint_401 :: string where
  "hint_401 = '' - Please check your API key and ensure it is valid.''"

definition hint_403 :: string where
  "hint_403 = '' - You may not have permission to access this resource.''"

definition hint_404 :: string where
  "hint_404 = '' - The requested resource was not found. Check the model ID.''"

definition hint_429 :: string where
  "hint_429 = '' - Rate limit exceeded. Please try again later.''"

definition hint_5xx :: string where
  "hint_5xx = '' - Server error. The Targon API may be experiencing issues. Try again with a simpler prompt or fewer tokens.''"

text \<open>Lines 350 to 361: the hint, chosen by the text of the error.\<close>

definition remedy_hint :: "string \<Rightarrow> string" where
  "remedy_hint msg =
     (if String_includes msg ''401'' \<or> String_includes msg ''authentication'' then hint_401
      else if String_includes msg ''403'' then hint_403
      else if String_includes msg ''404'' then hint_404
      else if String_includes msg ''429'' then hint_429
      else if String_includes msg ''500'' \<or> String_includes msg ''502''
              \<or> String_includes msg ''503'' then hint_5xx
      else [])"

text \<open>Lines 342 to 364: the message of the error thrown to the caller.\<close>

definition error_message :: "ApiError \<Rightarrow> string" where
  "error_message error =
     (if or_zero (status error) \<noteq> 0
      then ''Targon API error: '' @ show_int (or_zero (status error)) @ '' '' @ message error
      else ''Targon API error: '' @ message error)
     @ remedy_hint (message error)"

text \<open>
  The \<^verbatim>\<open>catch\<close> block, entered with the state of the first attempt, the requests
  submitted so far and the error caught.
\<close>

definition catch_block :: "Runtime \<Rightarrow> Model \<Rightarrow> string Message list \<Rightarrow> LoopState
    \<Rightarrow> ChatCompletionCreateParams list \<Rightarrow> ApiError \<Rightarrow> Outcome" where
  "catch_block rt mdl openAiMessages st reqs error =
     (if is_503 error then
        (let request = simple_request mdl openAiMessages;
             simpleStream = create rt (length reqs) request;
             st' = foldl process_retry_chunk st (events simpleStream)
         in case failure simpleStream of
              None \<Rightarrow>
                \<lparr>yielded = fragments st' @ [summary_fragment rt mdl st'],
                 thrown = None,
                 requests = reqs @ [request]\<rparr>
            | Some retryError \<Rightarrow>
                \<lparr>yielded = fragments st',
                 thrown = Some (error_message retryError),
                 requests = reqs @ [request]\<rparr>)
      else
        \<lparr>yielded = fragments st, thrown = Some (error_message error), requests = reqs\<rparr>)"

text \<open>
  Reading \<^verbatim>\<open>model.info.maxTokens\<close> throws when the default id is not a key of the table
  (the declared types exclude it); the message is the one of the V8 engine.
\<close>

definition TypeError_maxTokens :: ApiError where
  "TypeError_maxTokens =
     \<lparr>status = None, message = ''Cannot read properties of undefined (reading 'maxTokens')''\<rparr>"

subsection \<open>createMessage (src/test/targon-test.ts, lines 91 to 366)\<close>

definition createMessage :: "SharedApi \<Rightarrow> Runtime \<Rightarrow> ApiHandlerOptions \<Rightarrow> string
    \<Rightarrow> MessageContent Message list \<Rightarrow> Outcome" where
  "createMessage shared rt options systemPrompt msgs =
     (let mdl = getModel shared options in
      if or_empty (targonApiKey options) = [] then
        \<lparr>yielded = [], thrown = Some ''Targon API key not found'', requests = []\<rparr>
      else
        (let conciseSystemPrompt = makePromptConcise systemPrompt;
             openAiMessages = formattedMessages conciseSystemPrompt msgs
         in case info mdl of
              None \<Rightarrow> catch_block rt mdl openAiMessages initial_state [] TypeError_maxTokens
            | Some i \<Rightarrow>
                (let request = first_request mdl i openAiMessages msgs;
                     s = create rt 0 request;
                     st = foldl (process_chunk (JSON_parse rt)) initial_state (events s)
                 in case failure s of
                      None \<Rightarrow>
                        \<lparr>yielded = fragments st @ [summary_fragment rt mdl st],
                         thrown = None,
                         requests = [request]\<rparr>
                    | Some error \<Rightarrow> catch_block rt mdl openAiMessages st [request] error)))"

subsection \<open>The variant of src/api/providers/targon.ts\<close>

text \<open>
  Lines 79 to 96. \<^verbatim>\<open>chunk.choices[0]?.delta?.content || ""\<close> throws where the event has no
  \<^verbatim>\<open>choices\<close>; the message is the one of the V8 engine.
\<close>

definition TypeError_choices :: ApiError where
  "TypeError_choices =
     \<lparr>status = None, message = ''Cannot read properties of undefined (reading '0')''\<rparr>"

definition provider_content :: "Chunk \<Rightarrow> ApiError + string" where
  "provider_content chunk =
     (case chunk of
        ChunkString s \<Rightarrow> Inl TypeError_choices
      | Chunk c \<Rightarrow>
          (case choices c of
             None \<Rightarrow> Inl TypeError_choices
           | Some (ChoiceObject (Some d) m # rest) \<Rightarrow> Inr (or_empty (delta_content d))
           | Some _ \<Rightarrow> Inr []))"

fun provider_loop :: "LoopState \<Rightarrow> Chunk list \<Rightarrow> LoopState \<times> ApiError option" where
  "provider_loop st [] = (st, None)"
| "provider_loop st (chunk # rest) =
     (case provider_content chunk of
        Inl e \<Rightarrow> (st, Some e)
      | Inr c \<Rightarrow>
          provider_loop
            \<lparr>responseText = responseText st @ c,
             state_tokensIn = (case chunk_usage chunk of None \<Rightarrow> state_tokensIn st
                               | Some u \<Rightarrow> or_zero (prompt_tokens u)),
             state_tokensOut = (case chunk_usage chunk of None \<Rightarrow> state_tokensOut st
                                | Some u \<Rightarrow> or_zero (completion_tokens u)),
             fragments = fragments st @ (if c \<noteq> [] then [ApiStreamTextChunk c] else [])\<rparr>
            rest)"

definition provider_request :: "Model \<Rightarrow> ModelInfo \<Rightarrow> string Message list \<Rightarrow> ChatCompletionCreateParams" where
  "provider_request mdl i openAiMessages =
     \<lparr>model = model_id mdl,
      messages = openAiMessages,
      stream = True,
      temperature = 7 / 10,
      max_tokens = maxTokens_or_4096 i,
      tools = None\<rparr>"

text \<open>Lines 40 to 121; line 119 wraps the message of whatever was thrown.\<close>

definition createMessage_provider :: "SharedApi \<Rightarrow> Runtime \<Rightarrow> ApiHandlerOptions \<Rightarrow> string
    \<Rightarrow> MessageContent Message list \<Rightarrow> Outcome" where
  "createMessage_provider shared rt options systemPrompt msgs =
     (let mdl = getModel shared options in
      if or_empty (targonApiKey options) = [] then
        \<lparr>yielded = [], thrown = Some ''Targon API key not found'', requests = []\<rparr>
      else
        (let openAiMessages = formattedMessages systemPrompt msgs
         in case info mdl of
              None \<Rightarrow>
                \<lparr>yielded = [],
                 thrown = Some (''Targon API error: '' @ message TypeError_maxTokens),
                 requests = []\<rparr>
            | Some i \<Rightarrow>
                (let request = provider_request mdl i openAiMessages;
                     s = create rt 0 request;
                     (st, thrownInLoop) = provider_loop initial_state (events s)
                 in case (case thrownInLoop of Some e \<Rightarrow> Some e | None \<Rightarrow> failure s) of
                      None \<Rightarrow>
                        \<lparr>yielded = fragments st @ [summary_fragment rt mdl st],
                         thrown = None,
                         requests = [request]\<rparr>
                    | Some error \<Rightarrow>
                        \<lparr>yielded = fragments st,
                         thrown = Some (''Targon API error: '' @ message error),
                         requests = [request]\<rparr>)))"

subsection \<open>Vocabulary of the properties\<close>

text \<open>The usage counts of the last event that carries some, if any does.\<close>

definition last_usage :: "Chunk list \<Rightarrow> Usage option" where
  "last_usage cs =
     (if List.map_filter chunk_usage cs = [] then None
      else Some (last (List.map_filter chunk_usage cs)))"

text \<open>The fragments of the events of a retry: the non-empty contents of the deltas.\<close>

definition retry_fragments :: "Chunk list \<Rightarrow> ApiStreamChunk list" where
  "retry_fragments cs = map ApiStreamTextChunk (filter (\<lambda>t. t \<noteq> []) (map retry_content cs))"

text \<open>The token counts captured from a list of events: those of the last usage, or zero.\<close>

definition captured_tokensIn :: "Chunk list \<Rightarrow> int" where
  "captured_tokensIn cs = (case last_usage cs of None \<Rightarrow> 0 | Some u \<Rightarrow> or_zero (prompt_tokens u))"

definition captured_tokensOut :: "Chunk list \<Rightarrow> int" where
  "captured_tokensOut cs =
     (case last_usage cs of None \<Rightarrow> 0 | Some u \<Rightarrow> or_zero (completion_tokens u))"

text \<open>The Response Summary of a call with the given text and token counts.\<close>

definition response_summary :: "Runtime \<Rightarrow> Model \<Rightarrow> string \<Rightarrow> int \<Rightarrow> int \<Rightarrow> ApiResponse" where
  "response_summary rt mdl txt tin tout =
     \<lparr>response_id = uuidv4 rt,
      response_model = model_id mdl,
      created = Date_now_start rt div 1000,
      response_content = txt,
      metrics = Some \<lparr>metrics_tokensIn = Some tin,
                      metrics_tokensOut = Some tout,
                      metrics_tokensTotal = Some (tin + tout),
                      metrics_timeTotal = Some (Date_now_end rt - Date_now_start rt)\<rparr>\<rparr>"

text \<open>
  The messages of both requests of a call, its first request and the stream that answers
  it, the request of the retry and the stream that answers that.
\<close>

definition openAiMessages :: "string \<Rightarrow> MessageContent Message list \<Rightarrow> string Message list" where
  "openAiMessages systemPrompt msgs = formattedMessages (makePromptConcise systemPrompt) msgs"

definition initial_request :: "SharedApi \<Rightarrow> ApiHandlerOptions \<Rightarrow> string
    \<Rightarrow> MessageContent Message list \<Rightarrow> ModelInfo \<Rightarrow> ChatCompletionCreateParams" where
  "initial_request shared options systemPrompt msgs i =
     first_request (getModel shared options) i (openAiMessages systemPrompt msgs) msgs"

definition retry_request :: "SharedApi \<Rightarrow> ApiHandlerOptions \<Rightarrow> string
    \<Rightarrow> MessageContent Message list \<Rightarrow> ChatCompletionCreateParams" where
  "retry_request shared options systemPrompt msgs =
     simple_request (getModel shared options) (openAiMessages systemPrompt msgs)"

definition first_stream :: "SharedApi \<Rightarrow> Runtime \<Rightarrow> ApiHandlerOptions \<Rightarrow> string
    \<Rightarrow> MessageContent Message list \<Rightarrow> ModelInfo \<Rightarrow> ProviderStream" where
  "first_stream shared rt options systemPrompt msgs i =
     create rt 0 (initial_request shared options systemPrompt msgs i)"

definition retry_stream :: "SharedApi \<Rightarrow> Runtime \<Rightarrow> ApiHandlerOptions \<Rightarrow> string
    \<Rightarrow> MessageContent Message list \<Rightarrow> ProviderStream" where
  "retry_stream shared rt options systemPrompt msgs =
     create rt 1 (retry_request shared options systemPrompt msgs)"

text \<open>The stream that answers the request of the variant in src/api/providers.\<close>

definition provider_stream :: "SharedApi \<Rightarrow> Runtime \<Rightarrow> ApiHandlerOptions \<Rightarrow> string
    \<Rightarrow> MessageContent Message list \<Rightarrow> ModelInfo \<Rightarrow> ProviderStream" where
  "provider_stream shared rt options systemPrompt msgs i =
     create rt 0 (provider_request (getModel shared options) i
                    (formattedMessages systemPrompt msgs))"

text \<open>The fragments that the events of the first attempt yield.\<close>

definition first_fragments :: "Runtime \<Rightarrow> Chunk list \<Rightarrow> ApiStreamChunk list" where
  "first_fragments rt cs = concat (map (chunk_fragments (JSON_parse rt)) cs)"

text \<open>
  The specification's words for the Request Envelope built from a prompt, the input
  messages and the resolved model's entry: a system entry with the prompt, then the
  input messages in order, each with its role and with its content as text (the JSON
  text of a content that is not a string); streaming, temperature 0.7, and the configured
  maximum of tokens when it is a number other than 0, or 4096 when there is none or it
  is 0.
\<close>

definition request_envelope :: "string \<Rightarrow> MessageContent Message list \<Rightarrow> ModelInfo
    \<Rightarrow> ChatCompletionCreateParams \<Rightarrow> bool" where
  "request_envelope prompt msgs i r \<longleftrightarrow>
     length (messages r) = Suc (length msgs)
     \<and> messages r ! 0 = \<lparr>role = ''system'', content = prompt\<rparr>
     \<and> (\<forall>k < length msgs.
            role (messages r ! Suc k) = role (msgs ! k)
            \<and> (\<forall>s. content (msgs ! k) = StringContent s \<longrightarrow> content (messages r ! Suc k) = s)
            \<and> (\<forall>j. content (msgs ! k) = BlockContent j
                   \<longrightarrow> content (messages r ! Suc k) = JSON_stringify j))
     \<and> stream r
     \<and> temperature r = 7 / 10
     \<and> (\<forall>n. maxTokens i = Some n \<and> n \<noteq> 0 \<longrightarrow> max_tokens r = n)
     \<and> (maxTokens i = None \<or> maxTokens i = Some 0 \<longrightarrow> max_tokens r = 4096)"

text \<open>The status codes that the hints are chosen by, and the hints.\<close>

definition known_codes :: "string list" where
  "known_codes = [''401'', ''403'', ''404'', ''429'', ''500'', ''502'', ''503'']"

definition remedy_hints :: "string list" where
  "remedy_hints = [hint_401, hint_403, hint_404, hint_429, hint_5xx]"

text \<open>The tagged block for a question and the text of its options.\<close>

definition followup_block :: "string \<Rightarrow> string \<Rightarrow> string" where
  "followup_block question optionsText =
     ''<ask_followup_question>'' @ [CHR 0x0A] @ ''<question>'' @ question @ ''</question>''
     @ optionsText @ [CHR 0x0A] @ ''</ask_followup_question>''"

definition options_block :: "json \<Rightarrow> string" where
  "options_block options =
     [CHR 0x0A] @ ''<options>'' @ [CHR 0x0A] @ JSON_stringify options @ [CHR 0x0A] @ ''</options>''"

subsection \<open>Sample runs\<close>

definition sample_shared :: SharedApi where
  "sample_shared =
     \<lparr>targonModels = [''deepseek-ai/DeepSeek-V3'' \<mapsto> \<lparr>maxTokens = Some 8192\<rparr>],
      targonDefaultModelId = ''deepseek-ai/DeepSeek-V3''\<rparr>"

definition sample_options :: ApiHandlerOptions where
  "sample_options =
     \<lparr>targonApiKey = Some ''sn4_key'', apiModelId = Some ''deepseek-ai/DeepSeek-V3''\<rparr>"

definition sample_messages :: "MessageContent Message list" where
  "sample_messages = [\<lparr>role = ''user'', content = StringContent ''Hi''\<rparr>]"

text \<open>A runtime whose client answers its \<open>n\<close>-th request with \<open>answers n\<close>.\<close>

definition sample_runtime :: "(nat \<Rightarrow> ProviderStream) \<Rightarrow> Runtime" where
  "sample_runtime answers =
     \<lparr>uuidv4 = ''req-1'',
      Date_now_start = 1700000000000,
      Date_now_end = 1700000000250,
      create = (\<lambda>n request. answers n),
      JSON_parse = decode_json\<rparr>"

definition content_chunk :: "string \<Rightarrow> Chunk" where
  "content_chunk t =
     Chunk \<lparr>choices = Some [ChoiceObject (Some \<lparr>delta_content = Some t, tool_calls = None\<rparr>) None],
            chunk_content = None, usage = None\<rparr>"

definition usage_chunk :: "int \<Rightarrow> int \<Rightarrow> Chunk" where
  "usage_chunk p c =
     Chunk \<lparr>choices = Some [], chunk_content = None,
            usage = Some \<lparr>prompt_tokens = Some p, completion_tokens = Some c\<rparr>\<rparr>"

definition tool_call_chunk :: "string \<Rightarrow> Chunk" where
  "tool_call_chunk args =
     Chunk \<lparr>choices = Some [ChoiceObject
              (Some \<lparr>delta_content = None,
                     tool_calls = Some [\<lparr>function_delta =
                       Some \<lparr>name = Some ''ask_followup_question'', arguments = Some args\<rparr>\<rparr>]\<rparr>)
              None],
            chunk_content = None, usage = None\<rparr>"

definition ended :: "Chunk list \<Rightarrow> ProviderStream" where
  "ended cs = \<lparr>events = cs, failure = None\<rparr>"

definition failed :: "Chunk list \<Rightarrow> int option \<Rightarrow> string \<Rightarrow> ProviderStream" where
  "failed cs st msg = \<lparr>events = cs, failure = Some \<lparr>status = st, message = msg\<rparr>\<rparr>"

text \<open>A first request rejected with status 503 and a retry that streams "ok".\<close>

definition run_503_then_ok :: Runtime where
  "run_503_then_ok =
     sample_runtime (\<lambda>n. if n = 0 then failed [] (Some 503) ''Service Unavailable''
                          else ended [content_chunk ''ok''])"

text \<open>
  A request rejected with status 401; as in the errors of the client that the class
  constructs, the text starts with the status.
\<close>

definition run_401_incorrect_key :: Runtime where
  "run_401_incorrect_key =
     sample_runtime (\<lambda>n. failed [] (Some 401) ''401 Incorrect API key provided'')"

text \<open>A stream of "Hel", "lo" and a last event with the usage counts 5 and 2.\<close>

definition run_hello :: Runtime where
  "run_hello =
     sample_runtime (\<lambda>n. ended [content_chunk ''Hel'', content_chunk ''lo'', usage_chunk 5 2])"

text \<open>
  One tool call with the whole argument object, and the same argument text split over
  two tool calls that both name the tool.
\<close>

definition run_pick_one :: Runtime where
  \<open>run_pick_one = sample_runtime (\<lambda>n. ended [tool_call_chunk ''{"question": "Pick one"}''])\<close>

definition run_split_arguments :: Runtime where
  \<open>run_split_arguments =
     sample_runtime (\<lambda>n. ended [tool_call_chunk ''{"question": "Pick'',
                                  tool_call_chunk '' one"}''])\<close>

text \<open>A tool call of the follow-up question tool with the given argument text.\<close>

definition followup_call :: "string \<Rightarrow> ToolCall" where
  "followup_call args =
     \<lparr>function_delta = Some \<lparr>name = Some ''ask_followup_question'', arguments = Some args\<rparr>\<rparr>"

text \<open>
  A first attempt that streams "par" and the usage counts 3 and 1 and then fails with a
  503, and a retry that streams "tial" and an event with other usage counts.
\<close>

definition run_partial_then_retry :: Runtime where
  "run_partial_then_retry =
     sample_runtime (\<lambda>n.
       if n = 0 then failed [content_chunk ''par'', usage_chunk 3 1] None ''503 Service Unavailable''
       else ended [content_chunk ''tial'', usage_chunk 9 9])"

text \<open>A stream with a text delta and then a tool call.\<close>

definition run_text_and_tool :: Runtime where
  \<open>run_text_and_tool =
     sample_runtime (\<lambda>n. ended [content_chunk ''Sure.'',
                                  tool_call_chunk ''{"question": "Pick one"}''])\<close>

text \<open>A model table whose only entry has the maximum 0.\<close>

definition zero_shared :: SharedApi where
  "zero_shared =
     \<lparr>targonModels = [''deepseek-ai/DeepSeek-V3'' \<mapsto> \<lparr>maxTokens = Some 0\<rparr>],
      targonDefaultModelId = ''deepseek-ai/DeepSeek-V3''\<rparr>"

text \<open>
  One user message whose content is a list with one text block; the text has two double
  quotes and ends with a line feed.
\<close>

definition block_messages :: "MessageContent Message list" where
  \<open>block_messages =
     [\<lparr>role = ''user'',
       content = BlockContent (JArray [JObject
         [(''type'', JString ''text''),
          (''text'', JString (''Say "hi"'' @ [CHR 0x0A]))]])\<rparr>]\<close>

text \<open>The JSON text of that content: the quotes and the line feed are escaped.\<close>

definition block_text :: string where
  \<open>block_text =
     ''[{"type":"text","text":"Say '' @ [CHR 0x5C] @ ''"hi'' @ [CHR 0x5C] @ ''"''
     @ [CHR 0x5C] @ ''n"}]''\<close>

section \<open>Properties\<close>

subsection \<open>Substring tests\<close>

lemma String_includes_iff: "String_includes s t \<longleftrightarrow> (\<exists>p q. s = p @ t @ q)"
proof (induction s)
  case Nil
  show ?case by auto
next
  case (Cons c cs)
  show ?case
  proof
    assume "String_includes (c # cs) t"
    then consider "prefix t (c # cs)" | "String_includes cs t" by auto
    then show "\<exists>p q. c # cs = p @ t @ q"
    proof cases
      case 1
      then obtain q where "c # cs = t @ q" by (auto simp: prefix_def)
      then have "c # cs = [] @ t @ q" by simp
      then show ?thesis by blast
    next
      case 2
      with Cons.IH obtain p q where "cs = p @ t @ q" by blast
      then have "c # cs = (c # p) @ t @ q" by simp
      then show ?thesis by blast
    qed
  next
    assume "\<exists>p q. c # cs = p @ t @ q"
    then obtain p q where pq: "c # cs = p @ t @ q" by blast
    show "String_includes (c # cs) t"
    proof (cases p)
      case Nil
      with pq have "prefix t (c # cs)" by (simp add: prefix_def)
      then show ?thesis by simp
    next
      case (Cons a p')
      with pq have "cs = p' @ t @ q" by simp
      with Cons.IH have "String_includes cs t" by blast
      then show ?thesis by simp
    qed
  qed
qed

lemma String_includes_append_left: "String_includes s t \<Longrightarrow> String_includes (p @ s) t"
proof -
  assume "String_includes s t"
  then obtain a b where "s = a @ t @ b" by (auto simp: String_includes_iff)
  then have "p @ s = (p @ a) @ t @ b" by simp
  then show ?thesis unfolding String_includes_iff by blast
qed

lemma String_includes_append_right: "String_includes s t \<Longrightarrow> String_includes (s @ q) t"
proof -
  assume "String_includes s t"
  then obtain a b where "s = a @ t @ b" by (auto simp: String_includes_iff)
  then have "s @ q = a @ t @ (b @ q)" by simp
  then show ?thesis unfolding String_includes_iff by blast
qed

lemma String_includes_self: "String_includes s s"
proof -
  have "s = [] @ s @ []" by simp
  then show ?thesis unfolding String_includes_iff by blast
qed

lemma letter_pairs_codes:
  "\<forall>(c, d) \<in> set (zip upper_letters lower_letters).
     65 \<le> (of_char c :: nat) \<and> (of_char c :: nat) \<le> 90
     \<and> (of_char d :: nat) = of_char c + 32"
  by code_simp

lemma codes_letter_pairs:
  "\<forall>n \<in> set [65 ..< 91 :: nat].
     (char_of n, char_of (n + 32)) \<in> set (zip upper_letters lower_letters)"
  by code_simp

lemma lower_letters_codes:
  "\<forall>d \<in> set lower_letters. 97 \<le> (of_char d :: nat) \<and> (of_char d :: nat) \<le> 122"
  by code_simp

lemma toLowerCase_char_same_letter:
  assumes "d \<in> set lower_letters"
  shows "toLowerCase_char c = d \<longleftrightarrow> same_letter c d"
proof -
  let ?n = "of_char c :: nat" and ?m = "of_char d :: nat"
  from assms lower_letters_codes have m: "97 \<le> ?m" "?m \<le> 122" by auto
  show ?thesis
  proof
    assume low: "toLowerCase_char c = d"
    show "same_letter c d"
    proof (cases "65 \<le> ?n \<and> ?n \<le> 90")
      case True
      with low have d: "d = char_of (?n + 32)" by (auto simp: toLowerCase_char_def Let_def)
      from True have "65 \<le> ?n \<and> ?n < 91" by linarith
      then have "?n \<in> set [65 ..< 91]"
        by (simp only: set_upt atLeastLessThan_iff)
      with codes_letter_pairs
      have "(char_of ?n, char_of (?n + 32)) \<in> set (zip upper_letters lower_letters)"
        by blast
      with d show ?thesis by (simp add: same_letter_def)
    next
      case False
      show ?thesis
      proof (cases "192 \<le> ?n \<and> ?n \<le> 222 \<and> ?n \<noteq> 215")
        case True
        with False low have "d = char_of (?n + 32)" by (auto simp: toLowerCase_char_def Let_def)
        then have "?m = (?n + 32) mod 256" by simp
        with True have "?m = ?n + 32" by simp
        with True m show ?thesis by simp
      next
        case False
        with \<open>\<not> (65 \<le> ?n \<and> ?n \<le> 90)\<close> low have "c = d"
          by (auto simp: toLowerCase_char_def Let_def)
        then show ?thesis by (simp add: same_letter_def)
      qed
    qed
  next
    assume "same_letter c d"
    then consider "c = d" | "(c, d) \<in> set (zip upper_letters lower_letters)"
      | "(d, c) \<in> set (zip upper_letters lower_letters)"
      by (auto simp: same_letter_def)
    then show "toLowerCase_char c = d"
    proof cases
      case 1
      with m show ?thesis by (auto simp: toLowerCase_char_def Let_def)
    next
      case 2
      with letter_pairs_codes have "65 \<le> ?n \<and> ?n \<le> 90 \<and> ?m = ?n + 32" by blast
      then have "toLowerCase_char c = char_of ?m" by (auto simp: toLowerCase_char_def Let_def)
      then show ?thesis by simp
    next
      case 3
      with letter_pairs_codes have "?m \<le> 90" by blast
      with m show ?thesis by simp
    qed
  qed
qed

lemma toLowerCase_eq_same_letters:
  assumes "set w \<subseteq> set lower_letters"
  shows "toLowerCase u = w \<longleftrightarrow> list_all2 same_letter u w"
proof -
  have "toLowerCase u = w \<longleftrightarrow>
      length u = length w \<and> (\<forall>k < length u. toLowerCase_char (u ! k) = w ! k)"
    by (auto simp: toLowerCase_def list_eq_iff_nth_eq)
  also have "\<dots> \<longleftrightarrow> length u = length w \<and> (\<forall>k < length u. same_letter (u ! k) (w ! k))"
  proof (cases "length u = length w")
    case True
    have "toLowerCase_char (u ! k) = w ! k \<longleftrightarrow> same_letter (u ! k) (w ! k)"
      if "k < length u" for k
    proof -
      from that True assms have "w ! k \<in> set lower_letters" by auto
      then show ?thesis by (rule toLowerCase_char_same_letter)
    qed
    then show ?thesis by auto
  next
    case False
    then show ?thesis by simp
  qed
  also have "\<dots> \<longleftrightarrow> list_all2 same_letter u w"
    by (simp add: list_all2_conv_all_nth)
  finally show ?thesis .
qed

lemma contains_ignoring_case_iff:
  assumes "set w \<subseteq> set lower_letters"
  shows "contains_ignoring_case s w \<longleftrightarrow> String_includes (toLowerCase s) w"
proof
  assume "contains_ignoring_case s w"
  then obtain p u q where "s = p @ u @ q" and "list_all2 same_letter u w"
    by (auto simp: contains_ignoring_case_def)
  with assms have "s = p @ u @ q" and "toLowerCase u = w"
    by (simp_all add: toLowerCase_eq_same_letters)
  then have "toLowerCase s = toLowerCase p @ w @ toLowerCase q"
    by (auto simp: toLowerCase_def)
  then show "String_includes (toLowerCase s) w"
    unfolding String_includes_iff by blast
next
  assume "String_includes (toLowerCase s) w"
  then obtain a b where ab: "map toLowerCase_char s = a @ (w @ b)"
    by (auto simp: String_includes_iff toLowerCase_def)
  from ab [unfolded map_eq_append_conv]
  obtain p r where s: "s = p @ r" and r: "w @ b = map toLowerCase_char r"
    by blast
  from r [symmetric, unfolded map_eq_append_conv]
  obtain u q where "r = u @ q" and "w = map toLowerCase_char u"
    by blast
  with s have "s = p @ u @ q" and "toLowerCase u = w" by (simp_all add: toLowerCase_def)
  with assms have "s = p @ u @ q \<and> list_all2 same_letter u w"
    by (simp add: toLowerCase_eq_same_letters)
  then show "contains_ignoring_case s w"
    unfolding contains_ignoring_case_def by blast
qed

lemma needles_lower_letters:
  "set ''concise'' \<subseteq> set lower_letters"
  "set ''brief'' \<subseteq> set lower_letters"
  "set ''short'' \<subseteq> set lower_letters"
  by code_simp+

lemma contains_needle_iff:
  "contains_ignoring_case s ''concise'' \<longleftrightarrow> String_includes (toLowerCase s) ''concise''"
  "contains_ignoring_case s ''brief'' \<longleftrightarrow> String_includes (toLowerCase s) ''brief''"
  "contains_ignoring_case s ''short'' \<longleftrightarrow> String_includes (toLowerCase s) ''short''"
  by (rule contains_ignoring_case_iff, rule needles_lower_letters)+

subsection \<open>The loops\<close>

lemma fragments_foldl_process_chunk:
  "fragments (foldl (process_chunk p) st cs) = fragments st @ concat (map (chunk_fragments p) cs)"
  by (induction cs arbitrary: st) (simp_all add: process_chunk_def)

lemma responseText_foldl_process_chunk:
  "responseText (foldl (process_chunk p) st cs) = responseText st @ concat (map extract_content cs)"
  by (induction cs arbitrary: st) (simp_all add: process_chunk_def)

lemma last_usage_Nil: "last_usage [] = None"
  by (simp add: last_usage_def)

lemma last_usage_snoc:
  "last_usage (cs @ [c]) = (case chunk_usage c of None \<Rightarrow> last_usage cs | Some u \<Rightarrow> Some u)"
  by (auto simp: last_usage_def List.map_filter_def split: option.splits)

lemma last_usage_None_iff: "last_usage cs = None \<longleftrightarrow> (\<forall>c \<in> set cs. chunk_usage c = None)"
  by (induction cs rule: rev_induct)
     (auto simp: last_usage_Nil last_usage_snoc split: option.splits)

lemma tokensIn_foldl_process_chunk:
  "state_tokensIn (foldl (process_chunk p) st cs) =
     (case last_usage cs of None \<Rightarrow> state_tokensIn st | Some u \<Rightarrow> or_zero (prompt_tokens u))"
  by (induction cs rule: rev_induct)
     (simp_all add: last_usage_Nil last_usage_snoc process_chunk_def split: option.splits)

lemma tokensOut_foldl_process_chunk:
  "state_tokensOut (foldl (process_chunk p) st cs) =
     (case last_usage cs of None \<Rightarrow> state_tokensOut st | Some u \<Rightarrow> or_zero (completion_tokens u))"
  by (induction cs rule: rev_induct)
     (simp_all add: last_usage_Nil last_usage_snoc process_chunk_def split: option.splits)

lemma fragments_foldl_process_retry_chunk:
  "fragments (foldl process_retry_chunk st cs) = fragments st @ retry_fragments cs"
  by (induction cs arbitrary: st) (simp_all add: process_retry_chunk_def retry_fragments_def)

lemma responseText_foldl_process_retry_chunk:
  "responseText (foldl process_retry_chunk st cs) = responseText st @ concat (map retry_content cs)"
  by (induction cs arbitrary: st) (simp_all add: process_retry_chunk_def)

lemma tokensIn_foldl_process_retry_chunk:
  "state_tokensIn (foldl process_retry_chunk st cs) = state_tokensIn st"
  by (induction cs arbitrary: st) (simp_all add: process_retry_chunk_def)

lemma tokensOut_foldl_process_retry_chunk:
  "state_tokensOut (foldl process_retry_chunk st cs) = state_tokensOut st"
  by (induction cs arbitrary: st) (simp_all add: process_retry_chunk_def)

lemma summary_fragment_eq:
  "summary_fragment rt mdl st =
     ApiStreamTextChunk (TargonFormatResponse
       (response_summary rt mdl (responseText st) (state_tokensIn st) (state_tokensOut st)))"
  by (simp add: summary_fragment_def summary_response_def response_summary_def getApiMetrics_def)

lemma first_state_summary:
  "summary_fragment rt mdl (foldl (process_chunk p) initial_state cs) =
     ApiStreamTextChunk (TargonFormatResponse
       (response_summary rt mdl (concat (map extract_content cs))
          (captured_tokensIn cs) (captured_tokensOut cs)))"
  by (simp add: summary_fragment_eq responseText_foldl_process_chunk
      tokensIn_foldl_process_chunk tokensOut_foldl_process_chunk
      captured_tokensIn_def captured_tokensOut_def initial_state_def split: option.split)

lemma retry_state_summary:
  "summary_fragment rt mdl (foldl process_retry_chunk (foldl (process_chunk p) initial_state cs) ds) =
     ApiStreamTextChunk (TargonFormatResponse
       (response_summary rt mdl (concat (map extract_content cs) @ concat (map retry_content ds))
          (captured_tokensIn cs) (captured_tokensOut cs)))"
  by (simp add: summary_fragment_eq responseText_foldl_process_chunk
      responseText_foldl_process_retry_chunk
      tokensIn_foldl_process_retry_chunk tokensOut_foldl_process_retry_chunk
      tokensIn_foldl_process_chunk tokensOut_foldl_process_chunk
      captured_tokensIn_def captured_tokensOut_def initial_state_def split: option.split)

lemma fragments_initial_state: "fragments initial_state = []"
  by (simp add: initial_state_def)

subsection \<open>The outcome of a call, case by case\<close>

lemma createMessage_no_key:
  assumes "or_empty (targonApiKey options) = []"
  shows "createMessage shared rt options systemPrompt msgs =
           \<lparr>yielded = [], thrown = Some ''Targon API key not found'', requests = []\<rparr>"
  using assms by (simp add: createMessage_def)

lemma not_503_TypeError_maxTokens: "\<not> is_503 TypeError_maxTokens"
  by code_simp

lemma createMessage_no_info:
  assumes "or_empty (targonApiKey options) \<noteq> []"
    and "info (getModel shared options) = None"
  shows "createMessage shared rt options systemPrompt msgs =
           \<lparr>yielded = [], thrown = Some (error_message TypeError_maxTokens), requests = []\<rparr>"
  using assms
  by (simp add: createMessage_def catch_block_def not_503_TypeError_maxTokens fragments_initial_state)

lemma createMessage_first_ok:
  assumes "or_empty (targonApiKey options) \<noteq> []"
    and "info (getModel shared options) = Some i"
    and "failure (first_stream shared rt options systemPrompt msgs i) = None"
  shows "createMessage shared rt options systemPrompt msgs =
           \<lparr>yielded = first_fragments rt (events (first_stream shared rt options systemPrompt msgs i))
              @ [ApiStreamTextChunk (TargonFormatResponse
                   (response_summary rt (getModel shared options)
                      (concat (map extract_content (events (first_stream shared rt options systemPrompt msgs i))))
                      (captured_tokensIn (events (first_stream shared rt options systemPrompt msgs i)))
                      (captured_tokensOut (events (first_stream shared rt options systemPrompt msgs i)))))],
            thrown = None,
            requests = [initial_request shared options systemPrompt msgs i]\<rparr>"
  using assms
  by (simp add: createMessage_def Let_def first_stream_def initial_request_def openAiMessages_def
      first_state_summary fragments_foldl_process_chunk first_fragments_def fragments_initial_state)

lemma createMessage_first_failed:
  assumes "or_empty (targonApiKey options) \<noteq> []"
    and "info (getModel shared options) = Some i"
    and "failure (first_stream shared rt options systemPrompt msgs i) = Some e"
    and "\<not> is_503 e"
  shows "createMessage shared rt options systemPrompt msgs =
           \<lparr>yielded = first_fragments rt (events (first_stream shared rt options systemPrompt msgs i)),
            thrown = Some (error_message e),
            requests = [initial_request shared options systemPrompt msgs i]\<rparr>"
  using assms
  by (simp add: createMessage_def Let_def first_stream_def initial_request_def openAiMessages_def
      catch_block_def fragments_foldl_process_chunk first_fragments_def fragments_initial_state)

lemma createMessage_retry_ok:
  assumes "or_empty (targonApiKey options) \<noteq> []"
    and "info (getModel shared options) = Some i"
    and "failure (first_stream shared rt options systemPrompt msgs i) = Some e"
    and "is_503 e"
    and "failure (retry_stream shared rt options systemPrompt msgs) = None"
  shows "createMessage shared rt options systemPrompt msgs =
           \<lparr>yielded = first_fragments rt (events (first_stream shared rt options systemPrompt msgs i))
              @ retry_fragments (events (retry_stream shared rt options systemPrompt msgs))
              @ [ApiStreamTextChunk (TargonFormatResponse
                   (response_summary rt (getModel shared options)
                      (concat (map extract_content (events (first_stream shared rt options systemPrompt msgs i)))
                       @ concat (map retry_content (events (retry_stream shared rt options systemPrompt msgs))))
                      (captured_tokensIn (events (first_stream shared rt options systemPrompt msgs i)))
                      (captured_tokensOut (events (first_stream shared rt options systemPrompt msgs i)))))],
            thrown = None,
            requests = [initial_request shared options systemPrompt msgs i,
                        retry_request shared options systemPrompt msgs]\<rparr>"
  using assms
  by (simp add: createMessage_def Let_def first_stream_def initial_request_def openAiMessages_def
      retry_stream_def retry_request_def catch_block_def retry_state_summary
      fragments_foldl_process_chunk fragments_foldl_process_retry_chunk first_fragments_def
      fragments_initial_state)

lemma createMessage_retry_failed:
  assumes "or_empty (targonApiKey options) \<noteq> []"
    and "info (getModel shared options) = Some i"
    and "failure (first_stream shared rt options systemPrompt msgs i) = Some e"
    and "is_503 e"
    and "failure (retry_stream shared rt options systemPrompt msgs) = Some e'"
  shows "createMessage shared rt options systemPrompt msgs =
           \<lparr>yielded = first_fragments rt (events (first_stream shared rt options systemPrompt msgs i))
              @ retry_fragments (events (retry_stream shared rt options systemPrompt msgs)),
            thrown = Some (error_message e'),
            requests = [initial_request shared options systemPrompt msgs i,
                        retry_request shared options systemPrompt msgs]\<rparr>"
  using assms
  by (simp add: createMessage_def Let_def first_stream_def initial_request_def openAiMessages_def
      retry_stream_def retry_request_def catch_block_def
      fragments_foldl_process_chunk fragments_foldl_process_retry_chunk first_fragments_def
      fragments_initial_state)

subsection \<open>Errors thrown\<close>

lemma createMessage_thrown_cases:
  assumes "or_empty (targonApiKey options) \<noteq> []"
  shows "thrown (createMessage shared rt options systemPrompt msgs) = None
       \<or> (\<exists>e::ApiError. thrown (createMessage shared rt options systemPrompt msgs) = Some (error_message e))"
proof (cases "info (getModel shared options)")
  case None
  with assms show ?thesis by (auto simp: createMessage_no_info)
next
  case (Some i)
  show ?thesis
  proof (cases "failure (first_stream shared rt options systemPrompt msgs i)")
    case None
    with assms Some show ?thesis by (auto simp: createMessage_first_ok)
  next
    case e: (Some e)
    show ?thesis
    proof (cases "is_503 e")
      case False
      with assms Some e show ?thesis by (auto simp: createMessage_first_failed)
    next
      case True
      show ?thesis
      proof (cases "failure (retry_stream shared rt options systemPrompt msgs)")
        case None
        with assms Some e True show ?thesis by (auto simp: createMessage_retry_ok)
      next
        case (Some e')
        with assms \<open>info (getModel shared options) = Some i\<close> e True show ?thesis
          by (auto simp: createMessage_retry_failed)
      qed
    qed
  qed
qed

lemma createMessage_provider_no_key:
  assumes "or_empty (targonApiKey options) = []"
  shows "createMessage_provider shared rt options systemPrompt msgs =
           \<lparr>yielded = [], thrown = Some ''Targon API key not found'', requests = []\<rparr>"
  using assms by (simp add: createMessage_provider_def)

lemma createMessage_provider_thrown_cases:
  assumes "or_empty (targonApiKey options) \<noteq> []"
  shows "thrown (createMessage_provider shared rt options systemPrompt msgs) = None
       \<or> (\<exists>e::ApiError. thrown (createMessage_provider shared rt options systemPrompt msgs)
               = Some (''Targon API error: '' @ message e))"
  using assms
  by (auto simp: createMessage_provider_def Let_def split: option.splits prod.splits)

lemma error_message_not_key_error: "error_message (e::ApiError) \<noteq> ''Targon API key not found''"
  by (simp add: error_message_def)

lemma or_empty_eq_Nil_iff: "or_empty k = [] \<longleftrightarrow> k = None \<or> k = Some []"
  by (simp add: or_empty_def split: option.splits)

subsection \<open>makePromptConcise\<close>

lemma concise_suffix_not_empty: "concise_suffix \<noteq> []"
  by (simp add: concise_suffix_def)

text \<open>
  Claim C7. For every input string, \<open>makePromptConcise\<close> returns its argument unchanged
  exactly when the argument contains, ignoring letter case, one of the words "concise",
  "brief" or "short"; otherwise it returns the argument followed by the fixed suffix.
  "Be concise." is returned unchanged, and so are "BE CONCISE" and "Keep it Brief";
  "Answer questions." is returned with the suffix.
\<close>

theorem makePromptConcise_spec:
  "(makePromptConcise s = s \<longleftrightarrow>
      contains_ignoring_case s ''concise''
      \<or> contains_ignoring_case s ''brief''
      \<or> contains_ignoring_case s ''short'')
   \<and> (makePromptConcise s \<noteq> s \<longrightarrow> makePromptConcise s = s @ concise_suffix)
   \<and> makePromptConcise ''Be concise.'' = ''Be concise.''
   \<and> makePromptConcise ''BE CONCISE'' = ''BE CONCISE''
   \<and> makePromptConcise ''Keep it Brief'' = ''Keep it Brief''
   \<and> makePromptConcise ''Answer questions.'' = ''Answer questions.'' @ concise_suffix"
proof (intro conjI)
  show "makePromptConcise s = s \<longleftrightarrow>
      contains_ignoring_case s ''concise''
      \<or> contains_ignoring_case s ''brief''
      \<or> contains_ignoring_case s ''short''"
    by (simp add: makePromptConcise_def contains_needle_iff concise_suffix_not_empty)
  show "makePromptConcise s \<noteq> s \<longrightarrow> makePromptConcise s = s @ concise_suffix"
    by (simp add: makePromptConcise_def)
  show "makePromptConcise ''Be concise.'' = ''Be concise.''"
    by code_simp
  show "makePromptConcise ''BE CONCISE'' = ''BE CONCISE''"
    by code_simp
  show "makePromptConcise ''Keep it Brief'' = ''Keep it Brief''"
    by code_simp
  show "makePromptConcise ''Answer questions.'' = ''Answer questions.'' @ concise_suffix"
    by code_simp
qed

text \<open>
  Through the theorem: "BE CONCISE" has the letters of "concise" in capitals and is
  returned unchanged; "Answer questions." has none of the words and gets the suffix.
\<close>

theorem makePromptConcise_spec_witness:
  "contains_ignoring_case ''BE CONCISE'' ''concise''
   \<and> makePromptConcise ''BE CONCISE'' = ''BE CONCISE''
   \<and> makePromptConcise ''Answer questions.'' \<noteq> ''Answer questions.''
   \<and> makePromptConcise ''Answer questions.'' = ''Answer questions.'' @ concise_suffix"
proof -
  have letters: "list_all2 same_letter ''CONCISE'' ''concise''"
    by code_simp
  have "''BE CONCISE'' = ''BE '' @ ''CONCISE'' @ []" by simp
  with letters have yes: "contains_ignoring_case ''BE CONCISE'' ''concise''"
    unfolding contains_ignoring_case_def by blast
  have no: "\<not> (contains_ignoring_case ''Answer questions.'' ''concise''
      \<or> contains_ignoring_case ''Answer questions.'' ''brief''
      \<or> contains_ignoring_case ''Answer questions.'' ''short'')"
    unfolding contains_needle_iff by code_simp
  from yes makePromptConcise_spec [of "''BE CONCISE''"]
  have 1: "makePromptConcise ''BE CONCISE'' = ''BE CONCISE''" by blast
  from no makePromptConcise_spec [of "''Answer questions.''"]
  have 2: "makePromptConcise ''Answer questions.'' \<noteq> ''Answer questions.''" by blast
  with makePromptConcise_spec [of "''Answer questions.''"]
  have 3: "makePromptConcise ''Answer questions.'' = ''Answer questions.'' @ concise_suffix"
    by blast
  from yes 1 2 3 show ?thesis by blast
qed

subsection \<open>getModel\<close>

text \<open>
  What holds of \<open>getModel\<close>: the entry of a configured id that is an own key of the table,
  and the default entry when no id is configured, when it is empty, and when it is neither
  an own key nor the name of an inherited property.
\<close>

lemma getModel_cases:
  "(\<forall>m i. apiModelId options = Some m \<and> m \<noteq> [] \<and> targonModels shared m = Some i
      \<longrightarrow> getModel shared options = \<lparr>model_id = m, info = Some i\<rparr>)
   \<and> ((apiModelId options = None \<or> apiModelId options = Some []
        \<or> (\<exists>m. apiModelId options = Some m \<and> targonModels shared m = None
               \<and> m \<notin> set Object_prototype_keys))
      \<longrightarrow> getModel shared options =
            \<lparr>model_id = targonDefaultModelId shared,
             info = table_get shared (targonDefaultModelId shared)\<rparr>)"
  by (auto simp: getModel_def table_has_def table_get_def)

lemma getModel_inherited:
  assumes "apiModelId options = Some m" and "targonModels shared m = None"
    and "m \<in> set Object_prototype_keys"
  shows "getModel shared options = \<lparr>model_id = m, info = Some inherited_value\<rparr>"
proof -
  from assms(3) have "m \<noteq> []" by (auto simp: Object_prototype_keys_def)
  with assms show ?thesis by (simp add: getModel_def table_has_def table_get_def)
qed

text \<open>
  Claim C8 fails on the code for a configured id that is not in the table and names an
  inherited property. With the id "toString", which the sample table does not have,
  \<open>getModel\<close> returns that id with the inherited value, and not the default entry.
\<close>

theorem getModel_inherited_key:
  "targonModels sample_shared ''toString'' = None
   \<and> getModel sample_shared \<lparr>targonApiKey = Some ''sn4_key'', apiModelId = Some ''toString''\<rparr>
       = \<lparr>model_id = ''toString'', info = Some inherited_value\<rparr>
   \<and> getModel sample_shared \<lparr>targonApiKey = Some ''sn4_key'', apiModelId = Some ''toString''\<rparr>
       \<noteq> \<lparr>model_id = targonDefaultModelId sample_shared,
           info = targonModels sample_shared (targonDefaultModelId sample_shared)\<rparr>
   \<and> getModel sample_shared \<lparr>targonApiKey = Some ''sn4_key'', apiModelId = Some ''no-such-model''\<rparr>
       = \<lparr>model_id = targonDefaultModelId sample_shared,
          info = targonModels sample_shared (targonDefaultModelId sample_shared)\<rparr>"
  by code_simp

subsection \<open>The API key\<close>

text \<open>
  Claim C6. If no API key is configured (the option is missing or empty), \<open>createMessage\<close>
  throws the configuration error, has submitted no request and has yielded no fragment;
  with an API key configured, no call throws that error. Both variants.
\<close>

theorem createMessage_api_key:
  "((targonApiKey options = None \<or> targonApiKey options = Some []) \<longrightarrow>
      createMessage shared rt options systemPrompt msgs =
        \<lparr>yielded = [], thrown = Some ''Targon API key not found'', requests = []\<rparr>
      \<and> createMessage_provider shared rt options systemPrompt msgs =
        \<lparr>yielded = [], thrown = Some ''Targon API key not found'', requests = []\<rparr>)
   \<and> ((\<exists>k. targonApiKey options = Some k \<and> k \<noteq> []) \<longrightarrow>
      thrown (createMessage shared rt options systemPrompt msgs)
        \<noteq> Some ''Targon API key not found''
      \<and> thrown (createMessage_provider shared rt options systemPrompt msgs)
        \<noteq> Some ''Targon API key not found'')"
proof (intro conjI impI)
  assume "targonApiKey options = None \<or> targonApiKey options = Some []"
  then have none: "or_empty (targonApiKey options) = []"
    by (simp add: or_empty_eq_Nil_iff)
  from none show "createMessage shared rt options systemPrompt msgs =
      \<lparr>yielded = [], thrown = Some ''Targon API key not found'', requests = []\<rparr>"
    by (rule createMessage_no_key)
  from none show "createMessage_provider shared rt options systemPrompt msgs =
      \<lparr>yielded = [], thrown = Some ''Targon API key not found'', requests = []\<rparr>"
    by (rule createMessage_provider_no_key)
next
  assume "\<exists>k. targonApiKey options = Some k \<and> k \<noteq> []"
  then have some: "or_empty (targonApiKey options) \<noteq> []"
    by (auto simp: or_empty_def)
  from createMessage_thrown_cases [OF some, of shared rt systemPrompt msgs]
  show "thrown (createMessage shared rt options systemPrompt msgs)
      \<noteq> Some ''Targon API key not found''"
    by (auto simp: error_message_not_key_error)
next
  assume "\<exists>k. targonApiKey options = Some k \<and> k \<noteq> []"
  then have some: "or_empty (targonApiKey options) \<noteq> []"
    by (auto simp: or_empty_def)
  from createMessage_provider_thrown_cases [OF some, of shared rt systemPrompt msgs]
  show "thrown (createMessage_provider shared rt options systemPrompt msgs)
      \<noteq> Some ''Targon API key not found''"
    by auto
qed

theorem createMessage_api_key_witness:
  "createMessage sample_shared (sample_runtime (\<lambda>n. ended [content_chunk ''Hi'']))
     \<lparr>targonApiKey = None, apiModelId = None\<rparr> ''Answer.'' sample_messages =
     \<lparr>yielded = [], thrown = Some ''Targon API key not found'', requests = []\<rparr>
   \<and> createMessage_provider sample_shared (sample_runtime (\<lambda>n. ended [content_chunk ''Hi'']))
     \<lparr>targonApiKey = None, apiModelId = None\<rparr> ''Answer.'' sample_messages =
     \<lparr>yielded = [], thrown = Some ''Targon API key not found'', requests = []\<rparr>
   \<and> thrown (createMessage sample_shared (sample_runtime (\<lambda>n. ended [content_chunk ''Hi'']))
       sample_options ''Answer.'' sample_messages) \<noteq> Some ''Targon API key not found''
   \<and> thrown (createMessage_provider sample_shared (sample_runtime (\<lambda>n. ended [content_chunk ''Hi'']))
       sample_options ''Answer.'' sample_messages) \<noteq> Some ''Targon API key not found''"
  using
    createMessage_api_key [where options = "\<lparr>targonApiKey = None, apiModelId = None\<rparr>"
      and shared = sample_shared
      and rt = "sample_runtime (\<lambda>n. ended [content_chunk ''Hi''])"
      and systemPrompt = "''Answer.''" and msgs = sample_messages]
    createMessage_api_key [where options = sample_options
      and shared = sample_shared
      and rt = "sample_runtime (\<lambda>n. ended [content_chunk ''Hi''])"
      and systemPrompt = "''Answer.''" and msgs = sample_messages]
  by (simp add: sample_options_def)

subsection \<open>Request construction\<close>

lemma formattedMessages_envelope:
  "length (formattedMessages prompt msgs) = Suc (length msgs)
   \<and> formattedMessages prompt msgs ! 0 = \<lparr>role = ''system'', content = prompt\<rparr>
   \<and> (\<forall>k < length msgs.
          role (formattedMessages prompt msgs ! Suc k) = role (msgs ! k)
          \<and> (\<forall>s. content (msgs ! k) = StringContent s
                 \<longrightarrow> content (formattedMessages prompt msgs ! Suc k) = s)
          \<and> (\<forall>j. content (msgs ! k) = BlockContent j
                 \<longrightarrow> content (formattedMessages prompt msgs ! Suc k) = JSON_stringify j))"
  by (simp add: formattedMessages_def)

lemma maxTokens_or_4096_cases:
  "(\<forall>n. maxTokens i = Some n \<and> n \<noteq> 0 \<longrightarrow> maxTokens_or_4096 i = n)
   \<and> (maxTokens i = None \<or> maxTokens i = Some 0 \<longrightarrow> maxTokens_or_4096 i = 4096)"
  by (auto simp: maxTokens_or_4096_def or_zero_def)

lemma initial_request_envelope:
  "request_envelope (makePromptConcise systemPrompt) msgs i
     (initial_request shared options systemPrompt msgs i)"
  using formattedMessages_envelope [of "makePromptConcise systemPrompt" msgs]
    maxTokens_or_4096_cases [of i]
  by (simp add: request_envelope_def initial_request_def first_request_def openAiMessages_def)

lemma provider_request_envelope:
  "request_envelope systemPrompt msgs i
     (provider_request mdl i (formattedMessages systemPrompt msgs))"
  using formattedMessages_envelope [of systemPrompt msgs] maxTokens_or_4096_cases [of i]
  by (simp add: request_envelope_def provider_request_def)

lemma createMessage_requests:
  assumes "or_empty (targonApiKey options) \<noteq> []"
    and "info (getModel shared options) = Some i"
  shows "requests (createMessage shared rt options systemPrompt msgs)
           = [initial_request shared options systemPrompt msgs i]
       \<or> requests (createMessage shared rt options systemPrompt msgs)
           = [initial_request shared options systemPrompt msgs i,
              retry_request shared options systemPrompt msgs]"
proof (cases "failure (first_stream shared rt options systemPrompt msgs i)")
  case None
  with assms show ?thesis by (simp add: createMessage_first_ok)
next
  case e: (Some e)
  show ?thesis
  proof (cases "is_503 e")
    case False
    with assms e show ?thesis by (simp add: createMessage_first_failed)
  next
    case True
    show ?thesis
    proof (cases "failure (retry_stream shared rt options systemPrompt msgs)")
      case None
      with assms e True show ?thesis by (simp add: createMessage_retry_ok)
    next
      case (Some e')
      with assms e True show ?thesis by (simp add: createMessage_retry_failed)
    qed
  qed
qed

lemma createMessage_provider_requests:
  assumes "or_empty (targonApiKey options) \<noteq> []"
    and "info (getModel shared options) = Some i"
  shows "requests (createMessage_provider shared rt options systemPrompt msgs)
           = [provider_request (getModel shared options) i (formattedMessages systemPrompt msgs)]"
  using assms
  by (simp add: createMessage_provider_def Let_def split: option.splits prod.splits)

lemma block_request_messages:
  "map messages (requests (createMessage sample_shared
      (sample_runtime (\<lambda>n. ended [content_chunk ''Hello''])) sample_options ''Be brief.''
      block_messages)) =
     [[\<lparr>role = ''system'', content = ''Be brief.''\<rparr>,
       \<lparr>role = ''user'', content = block_text\<rparr>]]"
  by code_simp

lemma block_text_decoded:
  \<open>decode_json block_text =
     Some (JArray [JObject [(''type'', JString ''text''),
                            (''text'', JString (''Say "hi"'' @ [CHR 0x0A]))]])\<close>
  by code_simp

text \<open>
  Against claim C5 as stated: with a configured maximum of 0 the request of both variants
  has \<open>max_tokens = 4096\<close>, not the configured maximum.
\<close>

theorem createMessage_zero_maximum_counterexample:
  "info (getModel zero_shared sample_options) = Some \<lparr>maxTokens = Some 0\<rparr>
   \<and> map max_tokens (requests (createMessage zero_shared
        (sample_runtime (\<lambda>n. ended [content_chunk ''Hello''])) sample_options ''Answer.''
        sample_messages)) = [4096]
   \<and> map max_tokens (requests (createMessage_provider zero_shared
        (sample_runtime (\<lambda>n. ended [content_chunk ''Hello''])) sample_options ''Answer.''
        sample_messages)) = [4096]"
  by code_simp

text \<open>
  Claim C5, amended. For every system prompt and ordered message list, when a request is
  built (an API key is configured and the resolved model has an entry), the first request
  that \<open>createMessage\<close> submits is for the resolved model and is the Request Envelope of
  the rewritten system prompt: a system entry, then the input messages in order with
  their roles and with a content that is not a string as its JSON text; streaming,
  temperature 0.7, and \<open>max_tokens\<close> the configured maximum when that is not 0, and 4096
  when it is absent or 0. The request of the variant in src/api/providers is the Request
  Envelope of the system prompt as given. A content block whose text is \<^verbatim>\<open>Say "hi"\<close> and a
  line feed is sent as the JSON text with the quotes and the line feed escaped, which
  decodes to the block.
\<close>

theorem createMessage_request_envelope:
  assumes "or_empty (targonApiKey options) \<noteq> []"
    and "info (getModel shared options) = Some i"
  shows "(\<exists>request rest.
            requests (createMessage shared rt options systemPrompt msgs) = request # rest
            \<and> model request = model_id (getModel shared options)
            \<and> request_envelope (makePromptConcise systemPrompt) msgs i request)
       \<and> (\<exists>request.
            requests (createMessage_provider shared rt options systemPrompt msgs) = [request]
            \<and> model request = model_id (getModel shared options)
            \<and> request_envelope systemPrompt msgs i request)
       \<and> map messages (requests (createMessage sample_shared
              (sample_runtime (\<lambda>n. ended [content_chunk ''Hello''])) sample_options ''Be brief.''
              block_messages)) =
             [[\<lparr>role = ''system'', content = ''Be brief.''\<rparr>,
               \<lparr>role = ''user'', content = block_text\<rparr>]]
       \<and> decode_json block_text =
             Some (JArray [JObject [(''type'', JString ''text''),
                                    (''text'', JString (''Say '' @ [CHR 0x22] @ ''hi'' @ [CHR 0x22]
                                       @ [CHR 0x0A]))]])"
proof (intro conjI)
  have "model (initial_request shared options systemPrompt msgs i)
      = model_id (getModel shared options)"
    by (simp add: initial_request_def first_request_def)
  with createMessage_requests [OF assms, of rt systemPrompt msgs]
    initial_request_envelope [of systemPrompt msgs i shared options]
  show "\<exists>request rest.
      requests (createMessage shared rt options systemPrompt msgs) = request # rest
      \<and> model request = model_id (getModel shared options)
      \<and> request_envelope (makePromptConcise systemPrompt) msgs i request"
    by auto
next
  have "model (provider_request (getModel shared options) i (formattedMessages systemPrompt msgs))
      = model_id (getModel shared options)"
    by (simp add: provider_request_def)
  with createMessage_provider_requests [OF assms, of rt systemPrompt msgs]
    provider_request_envelope [of systemPrompt msgs i "getModel shared options"]
  show "\<exists>request.
      requests (createMessage_provider shared rt options systemPrompt msgs) = [request]
      \<and> model request = model_id (getModel shared options)
      \<and> request_envelope systemPrompt msgs i request"
    by auto
next
  show "map messages (requests (createMessage sample_shared
        (sample_runtime (\<lambda>n. ended [content_chunk ''Hello''])) sample_options ''Be brief.''
        block_messages)) =
      [[\<lparr>role = ''system'', content = ''Be brief.''\<rparr>,
        \<lparr>role = ''user'', content = block_text\<rparr>]]"
    by (rule block_request_messages)
next
  from block_text_decoded
  show "decode_json block_text =
      Some (JArray [JObject [(''type'', JString ''text''),
                             (''text'', JString (''Say '' @ [CHR 0x22] @ ''hi'' @ [CHR 0x22]
                                @ [CHR 0x0A]))]])"
    by simp
qed

lemma sample_key: "or_empty (targonApiKey sample_options) \<noteq> []"
  by code_simp

lemma sample_info: "info (getModel sample_shared sample_options) = Some \<lparr>maxTokens = Some 8192\<rparr>"
  by code_simp

lemma zero_info: "info (getModel zero_shared sample_options) = Some \<lparr>maxTokens = Some 0\<rparr>"
  by code_simp

text \<open>
  The example of the specification, the prompt "Answer." and one user message "Hi"; the
  message with a content block; and the table with the maximum 0.
\<close>

theorem createMessage_request_envelope_witness:
  "(\<exists>request rest.
      requests (createMessage sample_shared (sample_runtime (\<lambda>n. ended [content_chunk ''Hello'']))
        sample_options ''Answer.'' sample_messages) = request # rest
      \<and> model request = ''deepseek-ai/DeepSeek-V3''
      \<and> messages request = [\<lparr>role = ''system'', content = ''Answer.'' @ concise_suffix\<rparr>,
                             \<lparr>role = ''user'', content = ''Hi''\<rparr>]
      \<and> stream request \<and> temperature request = 7 / 10 \<and> max_tokens request = 8192)
   \<and> (\<exists>request.
      requests (createMessage_provider sample_shared (sample_runtime (\<lambda>n. ended [content_chunk ''Hello'']))
        sample_options ''Answer.'' sample_messages) = [request]
      \<and> messages request = [\<lparr>role = ''system'', content = ''Answer.''\<rparr>,
                             \<lparr>role = ''user'', content = ''Hi''\<rparr>]
      \<and> stream request \<and> temperature request = 7 / 10 \<and> max_tokens request = 8192)
   \<and> (\<exists>request rest.
      requests (createMessage sample_shared (sample_runtime (\<lambda>n. ended [content_chunk ''Hello'']))
        sample_options ''Be brief.'' block_messages) = request # rest
      \<and> messages request = [\<lparr>role = ''system'', content = ''Be brief.''\<rparr>,
                             \<lparr>role = ''user'', content = block_text\<rparr>])
   \<and> (\<exists>request rest.
      requests (createMessage zero_shared (sample_runtime (\<lambda>n. ended [content_chunk ''Hello'']))
        sample_options ''Answer.'' sample_messages) = request # rest
      \<and> max_tokens request = 4096)"
proof -
  let ?rt = "sample_runtime (\<lambda>n. ended [content_chunk ''Hello''])"
  have mdl: "model_id (getModel sample_shared sample_options) = ''deepseek-ai/DeepSeek-V3''"
    by code_simp
  have prompt: "makePromptConcise ''Answer.'' = ''Answer.'' @ concise_suffix"
    by code_simp
  have brief: "makePromptConcise ''Be brief.'' = ''Be brief.''"
    by code_simp
  have msgs: "length sample_messages = 1"
    "role (sample_messages ! 0) = ''user''"
    "content (sample_messages ! 0) = StringContent ''Hi''"
    by (simp_all add: sample_messages_def)
  let ?block = "JArray [JObject [(''type'', JString ''text''),
      (''text'', JString (''Say '' @ [CHR 0x22] @ ''hi'' @ [CHR 0x22] @ [CHR 0x0A]))]]"
  have blocks: "length block_messages = 1"
    "role (block_messages ! 0) = ''user''"
    "content (block_messages ! 0) = BlockContent ?block"
    by (simp_all add: block_messages_def)
  have printed: "JSON_stringify ?block = block_text"
    by code_simp
  have list2: "xs = [xs ! 0, xs ! Suc 0]" if "length xs = Suc (Suc 0)" for xs :: "string Message list"
    using that by (cases xs; cases "tl xs") auto
  have env: "messages r = [\<lparr>role = ''system'', content = p\<rparr>, \<lparr>role = ''user'', content = ''Hi''\<rparr>]
      \<and> stream r \<and> temperature r = 7 / 10 \<and> max_tokens r = 8192"
    if "request_envelope p sample_messages \<lparr>maxTokens = Some 8192\<rparr> r" for p r
  proof -
    from that msgs have len: "length (messages r) = Suc (Suc 0)"
      and m0: "messages r ! 0 = \<lparr>role = ''system'', content = p\<rparr>"
      and m1: "role (messages r ! Suc 0) = ''user''" "content (messages r ! Suc 0) = ''Hi''"
      and rest: "stream r" "temperature r = 7 / 10" "max_tokens r = 8192"
      by (simp_all add: request_envelope_def)
    from m1 have "messages r ! Suc 0 = \<lparr>role = ''user'', content = ''Hi''\<rparr>"
      by (cases "messages r ! Suc 0") simp
    with list2 [OF len] m0 have "messages r = [\<lparr>role = ''system'', content = p\<rparr>,
        \<lparr>role = ''user'', content = ''Hi''\<rparr>]"
      by simp
    with rest show ?thesis by simp
  qed
  have env_block: "messages r = [\<lparr>role = ''system'', content = p\<rparr>,
      \<lparr>role = ''user'', content = block_text\<rparr>]"
    if "request_envelope p block_messages \<lparr>maxTokens = Some 8192\<rparr> r" for p r
  proof -
    from that blocks printed have len: "length (messages r) = Suc (Suc 0)"
      and m0: "messages r ! 0 = \<lparr>role = ''system'', content = p\<rparr>"
      and m1: "role (messages r ! Suc 0) = ''user''" "content (messages r ! Suc 0) = block_text"
      by (simp_all add: request_envelope_def)
    from m1 have "messages r ! Suc 0 = \<lparr>role = ''user'', content = block_text\<rparr>"
      by (cases "messages r ! Suc 0") simp
    with list2 [OF len] m0 show ?thesis by simp
  qed
  have env_zero: "max_tokens r = 4096"
    if "request_envelope p sample_messages \<lparr>maxTokens = Some 0\<rparr> r" for p r
    using that by (simp add: request_envelope_def)
  from createMessage_request_envelope [OF sample_key sample_info, of ?rt "''Answer.''"
      sample_messages]
  have 1: "\<exists>request rest.
      requests (createMessage sample_shared ?rt sample_options ''Answer.'' sample_messages)
        = request # rest
      \<and> model request = ''deepseek-ai/DeepSeek-V3''
      \<and> messages request = [\<lparr>role = ''system'', content = ''Answer.'' @ concise_suffix\<rparr>,
                             \<lparr>role = ''user'', content = ''Hi''\<rparr>]
      \<and> stream request \<and> temperature request = 7 / 10 \<and> max_tokens request = 8192"
    and 2: "\<exists>request.
      requests (createMessage_provider sample_shared ?rt sample_options ''Answer.'' sample_messages)
        = [request]
      \<and> messages request = [\<lparr>role = ''system'', content = ''Answer.''\<rparr>,
                             \<lparr>role = ''user'', content = ''Hi''\<rparr>]
      \<and> stream request \<and> temperature request = 7 / 10 \<and> max_tokens request = 8192"
    unfolding mdl prompt by (metis env)+
  from createMessage_request_envelope [OF sample_key sample_info, of ?rt "''Be brief.''"
      block_messages]
  have 3: "\<exists>request rest.
      requests (createMessage sample_shared ?rt sample_options ''Be brief.'' block_messages)
        = request # rest
      \<and> messages request = [\<lparr>role = ''system'', content = ''Be brief.''\<rparr>,
                             \<lparr>role = ''user'', content = block_text\<rparr>]"
    unfolding brief by (metis env_block)
  from createMessage_request_envelope [OF sample_key zero_info, of ?rt "''Answer.''"
      sample_messages]
  have 4: "\<exists>request rest.
      requests (createMessage zero_shared ?rt sample_options ''Answer.'' sample_messages)
        = request # rest
      \<and> max_tokens request = 4096"
    by (metis env_zero)
  from 1 2 3 4 show ?thesis by blast
qed

subsection \<open>The retry after a 503\<close>

lemma retry_request_eq:
  "retry_request shared options systemPrompt msgs =
     \<lparr>model = model (initial_request shared options systemPrompt msgs i),
      messages = messages (initial_request shared options systemPrompt msgs i),
      stream = True, temperature = 0, max_tokens = 1024, tools = None\<rparr>"
  by (simp add: retry_request_def simple_request_def initial_request_def first_request_def)

text \<open>
  Claim C2. If the first attempt fails with an error whose status is 503 or whose message
  contains "503", the adapter submits exactly one more request: the same model and
  messages, no tools, temperature 0 and at most 1024 tokens. Of the events of the retry
  only the contents of the deltas are yielded. If the retry ends, the call yields its
  Response Summary and returns, so no error reaches the caller; if the retry fails, the
  error thrown is the one built from the error of the retry.
\<close>

theorem createMessage_retry_after_503:
  assumes "or_empty (targonApiKey options) \<noteq> []"
    and "info (getModel shared options) = Some i"
    and "failure (first_stream shared rt options systemPrompt msgs i) = Some e"
    and "status e = Some 503 \<or> String_includes (message e) ''503''"
  shows "requests (createMessage shared rt options systemPrompt msgs)
           = [initial_request shared options systemPrompt msgs i,
              retry_request shared options systemPrompt msgs]
       \<and> retry_request shared options systemPrompt msgs =
           \<lparr>model = model (initial_request shared options systemPrompt msgs i),
            messages = messages (initial_request shared options systemPrompt msgs i),
            stream = True, temperature = 0, max_tokens = 1024, tools = None\<rparr>
       \<and> (failure (retry_stream shared rt options systemPrompt msgs) = None \<longrightarrow>
             thrown (createMessage shared rt options systemPrompt msgs) = None
             \<and> yielded (createMessage shared rt options systemPrompt msgs) =
                 first_fragments rt (events (first_stream shared rt options systemPrompt msgs i))
                 @ retry_fragments (events (retry_stream shared rt options systemPrompt msgs))
                 @ [ApiStreamTextChunk (TargonFormatResponse
                      (response_summary rt (getModel shared options)
                         (concat (map extract_content
                            (events (first_stream shared rt options systemPrompt msgs i)))
                          @ concat (map retry_content
                            (events (retry_stream shared rt options systemPrompt msgs))))
                         (captured_tokensIn
                            (events (first_stream shared rt options systemPrompt msgs i)))
                         (captured_tokensOut
                            (events (first_stream shared rt options systemPrompt msgs i)))))])
       \<and> (\<forall>e'. failure (retry_stream shared rt options systemPrompt msgs) = Some e' \<longrightarrow>
             thrown (createMessage shared rt options systemPrompt msgs) = Some (error_message e')
             \<and> yielded (createMessage shared rt options systemPrompt msgs) =
                 first_fragments rt (events (first_stream shared rt options systemPrompt msgs i))
                 @ retry_fragments (events (retry_stream shared rt options systemPrompt msgs)))"
proof -
  from assms(4) have is503: "is_503 e" by (simp add: is_503_def)
  show ?thesis
  proof (cases "failure (retry_stream shared rt options systemPrompt msgs)")
    case None
    from createMessage_retry_ok [OF assms(1-3) is503 None] None
      retry_request_eq [of shared options systemPrompt msgs i]
    show ?thesis by simp
  next
    case (Some e')
    from createMessage_retry_failed [OF assms(1-3) is503 Some] Some
      retry_request_eq [of shared options systemPrompt msgs i]
    show ?thesis by simp
  qed
qed

text \<open>
  The example of the specification: the first request is rejected with status 503, the
  retry streams "ok"; the call yields "ok" and one summary, and throws nothing.
\<close>

theorem createMessage_retry_after_503_witness:
  \<open>requests (createMessage sample_shared run_503_then_ok sample_options ''Be brief.'' sample_messages)
     = [initial_request sample_shared sample_options ''Be brief.'' sample_messages
          \<lparr>maxTokens = Some 8192\<rparr>,
        \<lparr>model = ''deepseek-ai/DeepSeek-V3'',
         messages = [\<lparr>role = ''system'', content = ''Be brief.''\<rparr>,
                     \<lparr>role = ''user'', content = ''Hi''\<rparr>],
         stream = True, temperature = 0, max_tokens = 1024, tools = None\<rparr>]
   \<and> thrown (createMessage sample_shared run_503_then_ok sample_options ''Be brief.'' sample_messages)
     = None
   \<and> yielded (createMessage sample_shared run_503_then_ok sample_options ''Be brief.'' sample_messages)
     = [ApiStreamTextChunk ''ok'',
        ApiStreamTextChunk ''{"id":"req-1","model":"deepseek-ai/DeepSeek-V3","created":1700000000,"content":"ok","tokensIn":0,"tokensOut":0,"tokensTotal":0,"timeTotal":250}'']\<close>
proof -
  let ?e = "\<lparr>status = Some 503, message = ''Service Unavailable''\<rparr>"
  have f: "failure (first_stream sample_shared run_503_then_ok sample_options ''Be brief.''
      sample_messages \<lparr>maxTokens = Some 8192\<rparr>) = Some ?e"
    by code_simp
  have s: "status ?e = Some 503 \<or> String_includes (message ?e) ''503''"
    by simp
  have r: "failure (retry_stream sample_shared run_503_then_ok sample_options ''Be brief.''
      sample_messages) = None"
    by code_simp
  have req: "retry_request sample_shared sample_options ''Be brief.'' sample_messages =
      \<lparr>model = ''deepseek-ai/DeepSeek-V3'',
       messages = [\<lparr>role = ''system'', content = ''Be brief.''\<rparr>,
                   \<lparr>role = ''user'', content = ''Hi''\<rparr>],
       stream = True, temperature = 0, max_tokens = 1024, tools = None\<rparr>"
    by code_simp
  have first: "first_fragments run_503_then_ok
      (events (first_stream sample_shared run_503_then_ok sample_options ''Be brief.''
         sample_messages \<lparr>maxTokens = Some 8192\<rparr>)) = []"
    by code_simp
  have retry: "retry_fragments
      (events (retry_stream sample_shared run_503_then_ok sample_options ''Be brief.''
         sample_messages)) = [ApiStreamTextChunk ''ok'']"
    by code_simp
  have summary: \<open>TargonFormatResponse
      (response_summary run_503_then_ok (getModel sample_shared sample_options)
         (concat (map extract_content
            (events (first_stream sample_shared run_503_then_ok sample_options ''Be brief.''
               sample_messages \<lparr>maxTokens = Some 8192\<rparr>)))
          @ concat (map retry_content
            (events (retry_stream sample_shared run_503_then_ok sample_options ''Be brief.''
               sample_messages))))
         (captured_tokensIn
            (events (first_stream sample_shared run_503_then_ok sample_options ''Be brief.''
               sample_messages \<lparr>maxTokens = Some 8192\<rparr>)))
         (captured_tokensOut
            (events (first_stream sample_shared run_503_then_ok sample_options ''Be brief.''
               sample_messages \<lparr>maxTokens = Some 8192\<rparr>))))
      = ''{"id":"req-1","model":"deepseek-ai/DeepSeek-V3","created":1700000000,"content":"ok","tokensIn":0,"tokensOut":0,"tokensTotal":0,"timeTotal":250}''\<close>
    by code_simp
  from createMessage_retry_after_503 [OF sample_key sample_info f s] r
  show ?thesis
    unfolding req first retry summary by simp
qed

subsection \<open>The error thrown to the caller\<close>

lemma error_message_with_status:
  "status (err::ApiError) = Some n \<Longrightarrow> n \<noteq> 0 \<Longrightarrow>
     error_message err =
       ''Targon API error: '' @ show_int n @ '' '' @ message err @ remedy_hint (message err)"
  by (simp add: error_message_def or_zero_def)

lemma error_message_without_status:
  "status (err::ApiError) = None \<Longrightarrow>
     error_message err = ''Targon API error: '' @ message err @ remedy_hint (message err)"
  by (simp add: error_message_def or_zero_def)

lemma remedy_hint_known:
  "\<exists>c \<in> set known_codes. String_includes msg c \<Longrightarrow> remedy_hint msg \<in> set remedy_hints"
  by (auto simp: known_codes_def remedy_hints_def remedy_hint_def)

lemma remedy_hint_401:
  "String_includes msg ''401'' \<or> String_includes msg ''authentication'' \<Longrightarrow>
     remedy_hint msg = hint_401"
  by (auto simp: remedy_hint_def)

lemma show_int_401: "show_int 401 = ''401''"
  by code_simp

lemma error_message_401:
  assumes "status (err::ApiError) = Some 401"
  shows "String_includes (error_message err) ''401''"
proof -
  from assms have "error_message err =
      ''Targon API error: '' @ ''401'' @ ('' '' @ message err @ remedy_hint (message err))"
    by (simp add: error_message_with_status show_int_401)
  moreover have "String_includes
      (''Targon API error: '' @ ''401'' @ ('' '' @ message err @ remedy_hint (message err))) ''401''"
    by (intro String_includes_append_left String_includes_append_right String_includes_self)
  ultimately show ?thesis by simp
qed

lemma createMessage_provider_failed:
  assumes "or_empty (targonApiKey options) \<noteq> []"
    and "info (getModel shared options) = Some i"
    and "provider_loop initial_state
           (events (provider_stream shared rt options systemPrompt msgs i)) = (st, looped)"
    and "(case looped of Some t \<Rightarrow> Some t
          | None \<Rightarrow> failure (provider_stream shared rt options systemPrompt msgs i)) = Some e"
  shows "createMessage_provider shared rt options systemPrompt msgs =
           \<lparr>yielded = fragments st,
            thrown = Some (''Targon API error: '' @ message e),
            requests = [provider_request (getModel shared options) i
                          (formattedMessages systemPrompt msgs)]\<rparr>"
  using assms
  by (cases looped) (simp_all add: createMessage_provider_def provider_stream_def Let_def)

lemma createMessage_thrown_error:
  assumes "or_empty (targonApiKey options) \<noteq> []"
    and "info (getModel shared options) = Some i"
    and "failure (first_stream shared rt options systemPrompt msgs i) = Some e"
    and "is_503 e \<longrightarrow> failure (retry_stream shared rt options systemPrompt msgs) \<noteq> None"
  shows "\<exists>err::ApiError.
      (\<not> is_503 e \<and> err = e
       \<or> is_503 e \<and> failure (retry_stream shared rt options systemPrompt msgs) = Some err)
      \<and> thrown (createMessage shared rt options systemPrompt msgs) = Some (error_message err)
      \<and> (\<forall>n. status err = Some n \<and> n \<noteq> 0 \<longrightarrow>
            error_message err = ''Targon API error: '' @ show_int n @ '' '' @ message err
              @ remedy_hint (message err))
      \<and> (status err = None \<longrightarrow>
            error_message err = ''Targon API error: '' @ message err @ remedy_hint (message err))
      \<and> ((\<exists>c \<in> set known_codes. String_includes (message err) c) \<longrightarrow>
            remedy_hint (message err) \<in> set remedy_hints)
      \<and> (status err = Some 401 \<longrightarrow> String_includes (error_message err) ''401'')
      \<and> (String_includes (message err) ''401'' \<or> String_includes (message err) ''authentication''
            \<longrightarrow> remedy_hint (message err) = hint_401)
      \<and> (\<not> is_503 e \<longrightarrow>
            yielded (createMessage shared rt options systemPrompt msgs) =
              first_fragments rt (events (first_stream shared rt options systemPrompt msgs i)))
      \<and> (is_503 e \<longrightarrow>
            yielded (createMessage shared rt options systemPrompt msgs) =
              first_fragments rt (events (first_stream shared rt options systemPrompt msgs i))
              @ retry_fragments (events (retry_stream shared rt options systemPrompt msgs)))
      \<and> (\<not> is_503 e \<and> events (first_stream shared rt options systemPrompt msgs i) = [] \<longrightarrow>
            yielded (createMessage shared rt options systemPrompt msgs) = [])"
proof -
  have props:
    "\<forall>n. status err = Some n \<and> n \<noteq> 0 \<longrightarrow>
          error_message err = ''Targon API error: '' @ show_int n @ '' '' @ message err
            @ remedy_hint (message err)"
    "status err = None \<longrightarrow>
          error_message err = ''Targon API error: '' @ message err @ remedy_hint (message err)"
    "(\<exists>c \<in> set known_codes. String_includes (message err) c) \<longrightarrow>
          remedy_hint (message err) \<in> set remedy_hints"
    "status err = Some 401 \<longrightarrow> String_includes (error_message err) ''401''"
    "String_includes (message err) ''401'' \<or> String_includes (message err) ''authentication''
          \<longrightarrow> remedy_hint (message err) = hint_401"
    for err :: ApiError
  proof -
    show "\<forall>n. status err = Some n \<and> n \<noteq> 0 \<longrightarrow>
          error_message err = ''Targon API error: '' @ show_int n @ '' '' @ message err
            @ remedy_hint (message err)"
      by (simp add: error_message_with_status)
    show "status err = None \<longrightarrow>
          error_message err = ''Targon API error: '' @ message err @ remedy_hint (message err)"
      by (simp add: error_message_without_status)
    show "(\<exists>c \<in> set known_codes. String_includes (message err) c) \<longrightarrow>
          remedy_hint (message err) \<in> set remedy_hints"
      by (rule impI) (rule remedy_hint_known)
    show "status err = Some 401 \<longrightarrow> String_includes (error_message err) ''401''"
      by (rule impI) (rule error_message_401)
    show "String_includes (message err) ''401'' \<or> String_includes (message err) ''authentication''
          \<longrightarrow> remedy_hint (message err) = hint_401"
      by (rule impI) (rule remedy_hint_401)
  qed
  show ?thesis
  proof (cases "is_503 e")
    case False
    from createMessage_first_failed [OF assms(1-3) False]
    have out: "thrown (createMessage shared rt options systemPrompt msgs) = Some (error_message e)"
      "yielded (createMessage shared rt options systemPrompt msgs) =
         first_fragments rt (events (first_stream shared rt options systemPrompt msgs i))"
      by simp_all
    have empty: "first_fragments rt [] = []" by (simp add: first_fragments_def)
    show ?thesis
    proof (intro exI [of _ e] conjI)
      show "\<not> is_503 e \<and> e = e
          \<or> is_503 e \<and> failure (retry_stream shared rt options systemPrompt msgs) = Some e"
        using False by simp
      show "\<not> is_503 e \<longrightarrow>
          yielded (createMessage shared rt options systemPrompt msgs) =
            first_fragments rt (events (first_stream shared rt options systemPrompt msgs i))"
        using out(2) by simp
      show "is_503 e \<longrightarrow>
          yielded (createMessage shared rt options systemPrompt msgs) =
            first_fragments rt (events (first_stream shared rt options systemPrompt msgs i))
            @ retry_fragments (events (retry_stream shared rt options systemPrompt msgs))"
        using False by simp
      show "\<not> is_503 e \<and> events (first_stream shared rt options systemPrompt msgs i) = [] \<longrightarrow>
          yielded (createMessage shared rt options systemPrompt msgs) = []"
        using out(2) empty by simp
    qed (rule out(1) props)+
  next
    case True
    with assms(4) obtain e' where
      e': "failure (retry_stream shared rt options systemPrompt msgs) = Some e'"
      by auto
    from createMessage_retry_failed [OF assms(1-3) True e']
    have out: "thrown (createMessage shared rt options systemPrompt msgs) = Some (error_message e')"
      "yielded (createMessage shared rt options systemPrompt msgs) =
         first_fragments rt (events (first_stream shared rt options systemPrompt msgs i))
         @ retry_fragments (events (retry_stream shared rt options systemPrompt msgs))"
      by simp_all
    show ?thesis
    proof (intro exI [of _ e'] conjI)
      show "\<not> is_503 e \<and> e' = e
          \<or> is_503 e \<and> failure (retry_stream shared rt options systemPrompt msgs) = Some e'"
        using True e' by simp
      show "\<not> is_503 e \<longrightarrow>
          yielded (createMessage shared rt options systemPrompt msgs) =
            first_fragments rt (events (first_stream shared rt options systemPrompt msgs i))"
        using True by simp
      show "is_503 e \<longrightarrow>
          yielded (createMessage shared rt options systemPrompt msgs) =
            first_fragments rt (events (first_stream shared rt options systemPrompt msgs i))
            @ retry_fragments (events (retry_stream shared rt options systemPrompt msgs))"
        using out(2) by simp
      show "\<not> is_503 e \<and> events (first_stream shared rt options systemPrompt msgs i) = [] \<longrightarrow>
          yielded (createMessage shared rt options systemPrompt msgs) = []"
        using True by simp
    qed (rule out(1) props)+
  qed
qed

text \<open>
  Against claim C3 as stated: the class in src/api/providers/targon.ts appends no hint. A
  request rejected with status 401 and the text "401 Incorrect API key provided" throws
  that text after the fixed prefix, and the authentication hint is not in it.
\<close>

theorem createMessage_provider_401_counterexample:
  "failure (provider_stream sample_shared run_401_incorrect_key sample_options ''Be brief.''
      sample_messages \<lparr>maxTokens = Some 8192\<rparr>)
     = Some \<lparr>status = Some 401, message = ''401 Incorrect API key provided''\<rparr>
   \<and> String_includes ''401 Incorrect API key provided'' ''401''
   \<and> createMessage_provider sample_shared run_401_incorrect_key sample_options ''Be brief.''
        sample_messages =
       \<lparr>yielded = [],
        thrown = Some ''Targon API error: 401 Incorrect API key provided'',
        requests = [provider_request (getModel sample_shared sample_options)
                      \<lparr>maxTokens = Some 8192\<rparr>
                      (formattedMessages ''Be brief.'' sample_messages)]\<rparr>
   \<and> \<not> String_includes ''Targon API error: 401 Incorrect API key provided'' hint_401"
  by code_simp

text \<open>
  Claim C3, amended. For every failure of the provider that is not a 503 recovered by the
  retry, exactly one error is thrown. In the class with the retry it is built from the
  error of the first attempt, or from the error of the retry after a 503: its message
  embeds the status when the error carries one, and ends with one of the fixed hints when
  the text of the error contains one of the known status codes; an error with status 401
  gives a message that contains "401", with the authentication hint when the text of the
  error contains "401" or "authentication". In the class of src/api/providers/targon.ts
  the message is the fixed prefix followed by the text of the error, with no status and
  no hint added. In both, the fragments yielded before the failure stay yielded, and a
  call rejected before its first event has yielded none.
\<close>

theorem createMessage_error_handling:
  assumes "or_empty (targonApiKey options) \<noteq> []"
    and "info (getModel shared options) = Some i"
  shows "(\<forall>e. failure (first_stream shared rt options systemPrompt msgs i) = Some e
          \<and> (is_503 e \<longrightarrow> failure (retry_stream shared rt options systemPrompt msgs) \<noteq> None)
       \<longrightarrow> (\<exists>err::ApiError.
            (\<not> is_503 e \<and> err = e
             \<or> is_503 e \<and> failure (retry_stream shared rt options systemPrompt msgs) = Some err)
            \<and> thrown (createMessage shared rt options systemPrompt msgs) = Some (error_message err)
            \<and> (\<forall>n. status err = Some n \<and> n \<noteq> 0 \<longrightarrow>
                  error_message err = ''Targon API error: '' @ show_int n @ '' '' @ message err
                    @ remedy_hint (message err))
            \<and> (status err = None \<longrightarrow>
                  error_message err = ''Targon API error: '' @ message err @ remedy_hint (message err))
            \<and> ((\<exists>c \<in> set known_codes. String_includes (message err) c) \<longrightarrow>
                  remedy_hint (message err) \<in> set remedy_hints)
            \<and> (status err = Some 401 \<longrightarrow> String_includes (error_message err) ''401'')
            \<and> (String_includes (message err) ''401'' \<or> String_includes (message err) ''authentication''
                  \<longrightarrow> remedy_hint (message err) = hint_401)
            \<and> (\<not> is_503 e \<longrightarrow>
                  yielded (createMessage shared rt options systemPrompt msgs) =
                    first_fragments rt (events (first_stream shared rt options systemPrompt msgs i)))
            \<and> (is_503 e \<longrightarrow>
                  yielded (createMessage shared rt options systemPrompt msgs) =
                    first_fragments rt (events (first_stream shared rt options systemPrompt msgs i))
                    @ retry_fragments (events (retry_stream shared rt options systemPrompt msgs)))
            \<and> (\<not> is_503 e \<and> events (first_stream shared rt options systemPrompt msgs i) = [] \<longrightarrow>
                  yielded (createMessage shared rt options systemPrompt msgs) = [])))
     \<and> (\<forall>e st. failure (provider_stream shared rt options systemPrompt msgs i) = Some e
          \<and> provider_loop initial_state
                (events (provider_stream shared rt options systemPrompt msgs i)) = (st, None)
       \<longrightarrow> createMessage_provider shared rt options systemPrompt msgs =
             \<lparr>yielded = fragments st,
              thrown = Some (''Targon API error: '' @ message e),
              requests = [provider_request (getModel shared options) i
                            (formattedMessages systemPrompt msgs)]\<rparr>)
     \<and> (\<forall>e. failure (provider_stream shared rt options systemPrompt msgs i) = Some e
          \<and> events (provider_stream shared rt options systemPrompt msgs i) = []
       \<longrightarrow> createMessage_provider shared rt options systemPrompt msgs =
             \<lparr>yielded = [],
              thrown = Some (''Targon API error: '' @ message e),
              requests = [provider_request (getModel shared options) i
                            (formattedMessages systemPrompt msgs)]\<rparr>)"
proof (intro conjI allI impI)
  fix e
  assume "failure (first_stream shared rt options systemPrompt msgs i) = Some e
      \<and> (is_503 e \<longrightarrow> failure (retry_stream shared rt options systemPrompt msgs) \<noteq> None)"
  then have f: "failure (first_stream shared rt options systemPrompt msgs i) = Some e"
    and r: "is_503 e \<longrightarrow> failure (retry_stream shared rt options systemPrompt msgs) \<noteq> None"
    by simp_all
  show "\<exists>err::ApiError.
      (\<not> is_503 e \<and> err = e
       \<or> is_503 e \<and> failure (retry_stream shared rt options systemPrompt msgs) = Some err)
      \<and> thrown (createMessage shared rt options systemPrompt msgs) = Some (error_message err)
      \<and> (\<forall>n. status err = Some n \<and> n \<noteq> 0 \<longrightarrow>
            error_message err = ''Targon API error: '' @ show_int n @ '' '' @ message err
              @ remedy_hint (message err))
      \<and> (status err = None \<longrightarrow>
            error_message err = ''Targon API error: '' @ message err @ remedy_hint (message err))
      \<and> ((\<exists>c \<in> set known_codes. String_includes (message err) c) \<longrightarrow>
            remedy_hint (message err) \<in> set remedy_hints)
      \<and> (status err = Some 401 \<longrightarrow> String_includes (error_message err) ''401'')
      \<and> (String_includes (message err) ''401'' \<or> String_includes (message err) ''authentication''
            \<longrightarrow> remedy_hint (message err) = hint_401)
      \<and> (\<not> is_503 e \<longrightarrow>
            yielded (createMessage shared rt options systemPrompt msgs) =
              first_fragments rt (events (first_stream shared rt options systemPrompt msgs i)))
      \<and> (is_503 e \<longrightarrow>
            yielded (createMessage shared rt options systemPrompt msgs) =
              first_fragments rt (events (first_stream shared rt options systemPrompt msgs i))
              @ retry_fragments (events (retry_stream shared rt options systemPrompt msgs)))
      \<and> (\<not> is_503 e \<and> events (first_stream shared rt options systemPrompt msgs i) = [] \<longrightarrow>
            yielded (createMessage shared rt options systemPrompt msgs) = [])"
    by (rule createMessage_thrown_error [OF assms f r])
next
  fix e st
  assume "failure (provider_stream shared rt options systemPrompt msgs i) = Some e
      \<and> provider_loop initial_state
            (events (provider_stream shared rt options systemPrompt msgs i)) = (st, None)"
  then show "createMessage_provider shared rt options systemPrompt msgs =
      \<lparr>yielded = fragments st,
       thrown = Some (''Targon API error: '' @ message e),
       requests = [provider_request (getModel shared options) i
                     (formattedMessages systemPrompt msgs)]\<rparr>"
    using createMessage_provider_failed [OF assms, of rt systemPrompt msgs st None e]
    by simp
next
  fix e
  assume "failure (provider_stream shared rt options systemPrompt msgs i) = Some e
      \<and> events (provider_stream shared rt options systemPrompt msgs i) = []"
  then show "createMessage_provider shared rt options systemPrompt msgs =
      \<lparr>yielded = [],
       thrown = Some (''Targon API error: '' @ message e),
       requests = [provider_request (getModel shared options) i
                     (formattedMessages systemPrompt msgs)]\<rparr>"
    using createMessage_provider_failed [OF assms, of rt systemPrompt msgs initial_state None e]
    by (simp add: fragments_initial_state)
qed

text \<open>
  A request rejected with status 401 whose text starts with the status. In the class
  with the retry the error thrown has the status, the text and the authentication hint;
  in the class of src/api/providers it has the text only. Nothing was yielded.
\<close>

theorem createMessage_error_handling_witness:
  "thrown (createMessage sample_shared run_401_incorrect_key sample_options ''Be brief.''
      sample_messages)
     = Some (''Targon API error: 401 401 Incorrect API key provided'' @ hint_401)
   \<and> String_includes
        (''Targon API error: 401 401 Incorrect API key provided'' @ hint_401) ''401''
   \<and> yielded (createMessage sample_shared run_401_incorrect_key sample_options ''Be brief.''
        sample_messages) = []
   \<and> createMessage_provider sample_shared run_401_incorrect_key sample_options ''Be brief.''
        sample_messages =
       \<lparr>yielded = [],
        thrown = Some ''Targon API error: 401 Incorrect API key provided'',
        requests = [provider_request (getModel sample_shared sample_options)
                      \<lparr>maxTokens = Some 8192\<rparr>
                      (formattedMessages ''Be brief.'' sample_messages)]\<rparr>"
proof -
  let ?e = "\<lparr>status = Some 401, message = ''401 Incorrect API key provided''\<rparr>"
  let ?out = "createMessage sample_shared run_401_incorrect_key sample_options ''Be brief.''
      sample_messages"
  note T = createMessage_error_handling [OF sample_key sample_info, of run_401_incorrect_key
      "''Be brief.''" sample_messages]
  have n: "\<not> is_503 ?e"
    by code_simp
  have f: "failure (first_stream sample_shared run_401_incorrect_key sample_options ''Be brief.''
        sample_messages \<lparr>maxTokens = Some 8192\<rparr>) = Some ?e
      \<and> (is_503 ?e \<longrightarrow>
        failure (retry_stream sample_shared run_401_incorrect_key sample_options ''Be brief.''
          sample_messages) \<noteq> None)"
    by code_simp
  have ev: "events (first_stream sample_shared run_401_incorrect_key sample_options ''Be brief.''
      sample_messages \<lparr>maxTokens = Some 8192\<rparr>) = []"
    by code_simp
  have inc: "String_includes (message ?e) ''401''"
    by code_simp
  have pf: "failure (provider_stream sample_shared run_401_incorrect_key sample_options
        ''Be brief.'' sample_messages \<lparr>maxTokens = Some 8192\<rparr>) = Some ?e
      \<and> events (provider_stream sample_shared run_401_incorrect_key sample_options
        ''Be brief.'' sample_messages \<lparr>maxTokens = Some 8192\<rparr>) = []"
    by code_simp
  from T [THEN conjunct1, rule_format, OF f]
  obtain err :: ApiError where
    which: "\<not> is_503 ?e \<and> err = ?e
      \<or> is_503 ?e \<and> failure (retry_stream sample_shared run_401_incorrect_key sample_options
            ''Be brief.'' sample_messages) = Some err"
    and thrown: "thrown ?out = Some (error_message err)"
    and embed: "\<forall>n. status err = Some n \<and> n \<noteq> 0 \<longrightarrow>
      error_message err = ''Targon API error: '' @ show_int n @ '' '' @ message err
        @ remedy_hint (message err)"
    and contains: "status err = Some 401 \<longrightarrow> String_includes (error_message err) ''401''"
    and hint: "String_includes (message err) ''401'' \<or> String_includes (message err) ''authentication''
      \<longrightarrow> remedy_hint (message err) = hint_401"
    and none: "\<not> is_503 ?e \<and> events (first_stream sample_shared run_401_incorrect_key
        sample_options ''Be brief.'' sample_messages \<lparr>maxTokens = Some 8192\<rparr>) = []
      \<longrightarrow> yielded ?out = []"
    by (elim exE conjE) (rule that)
  from which n have err: "err = ?e" by simp
  from embed err have "error_message err =
      ''Targon API error: '' @ show_int 401 @ '' '' @ message ?e @ remedy_hint (message ?e)"
    by simp
  with hint inc err have msg: "error_message err =
      ''Targon API error: 401 401 Incorrect API key provided'' @ hint_401"
    by (simp add: show_int_401)
  from contains err have "String_includes (error_message err) ''401''" by simp
  with msg thrown none n ev have 1: "thrown ?out
        = Some (''Targon API error: 401 401 Incorrect API key provided'' @ hint_401)
      \<and> String_includes
        (''Targon API error: 401 401 Incorrect API key provided'' @ hint_401) ''401''
      \<and> yielded ?out = []"
    by simp
  from T [THEN conjunct2, THEN conjunct2, rule_format, OF pf]
  have 2: "createMessage_provider sample_shared run_401_incorrect_key sample_options ''Be brief.''
        sample_messages =
       \<lparr>yielded = [],
        thrown = Some ''Targon API error: 401 Incorrect API key provided'',
        requests = [provider_request (getModel sample_shared sample_options)
                      \<lparr>maxTokens = Some 8192\<rparr>
                      (formattedMessages ''Be brief.'' sample_messages)]\<rparr>"
    by simp
  from 1 2 show ?thesis by simp
qed

subsection \<open>The Response Summary\<close>

lemma summary_object_response_summary:
  "summary_object (response_summary rt mdl txt tin tout) =
     JObject [(''id'', JString (uuidv4 rt)),
              (''model'', JString (model_id mdl)),
              (''created'', JNumber (Date_now_start rt div 1000)),
              (''content'', JString txt),
              (''tokensIn'', JNumber tin),
              (''tokensOut'', JNumber tout),
              (''tokensTotal'', JNumber (tin + tout)),
              (''timeTotal'', JNumber (Date_now_end rt - Date_now_start rt))]"
  by (simp add: summary_object_def response_summary_def defined_members_def optional_number_def)

lemma captured_tokens_zero:
  assumes "\<forall>c \<in> set cs. chunk_usage c = None"
  shows "captured_tokensIn cs = 0 \<and> captured_tokensOut cs = 0"
proof -
  from assms have "last_usage cs = None" by (simp add: last_usage_None_iff)
  then show ?thesis by (simp add: captured_tokensIn_def captured_tokensOut_def)
qed

lemma run_hello_yielded:
  \<open>yielded (createMessage sample_shared run_hello sample_options ''Answer.'' sample_messages) =
     [ApiStreamTextChunk ''Hel'', ApiStreamTextChunk ''lo'',
      ApiStreamTextChunk ''{"id":"req-1","model":"deepseek-ai/DeepSeek-V3","created":1700000000,"content":"Hello","tokensIn":5,"tokensOut":2,"tokensTotal":7,"timeTotal":250}'']\<close>
  by code_simp

lemma run_hello_decoded:
  \<open>decode_json ''{"id":"req-1","model":"deepseek-ai/DeepSeek-V3","created":1700000000,"content":"Hello","tokensIn":5,"tokensOut":2,"tokensTotal":7,"timeTotal":250}'' =
     Some (JObject [(''id'', JString ''req-1''),
                    (''model'', JString ''deepseek-ai/DeepSeek-V3''),
                    (''created'', JNumber 1700000000),
                    (''content'', JString ''Hello''),
                    (''tokensIn'', JNumber 5),
                    (''tokensOut'', JNumber 2),
                    (''tokensTotal'', JNumber 7),
                    (''timeTotal'', JNumber 250)])\<close>
  by code_simp

text \<open>
  Claim C1. When an API key is configured and the resolved model has an entry, a call
  whose provider stream ends without error emits exactly one Response Summary, as its
  last fragment: on the first attempt after the fragments of the events, and after a
  first attempt that failed with a 503 and a retry that ended, after the fragments of the
  first attempt and those of the retry; nothing is thrown. The summary is the JSON text of
  an object with \<open>tokensTotal = tokensIn + tokensOut\<close>, and both counts are zero when no
  event carried usage counts. For the stream "Hel", "lo", usage 5 and 2, the fragments are
  "Hel", "lo" and a summary that decodes to \<open>tokensIn = 5\<close>, \<open>tokensOut = 2\<close>,
  \<open>tokensTotal = 7\<close>.
\<close>

theorem createMessage_summary_last:
  assumes "or_empty (targonApiKey options) \<noteq> []"
    and "info (getModel shared options) = Some i"
  shows \<open>(failure (first_stream shared rt options systemPrompt msgs i) = None \<longrightarrow>
      createMessage shared rt options systemPrompt msgs =
        \<lparr>yielded =
           first_fragments rt (events (first_stream shared rt options systemPrompt msgs i))
           @ [ApiStreamTextChunk (TargonFormatResponse
                (response_summary rt (getModel shared options)
                   (concat (map extract_content
                      (events (first_stream shared rt options systemPrompt msgs i))))
                   (captured_tokensIn (events (first_stream shared rt options systemPrompt msgs i)))
                   (captured_tokensOut (events (first_stream shared rt options systemPrompt msgs i)))))],
         thrown = None,
         requests = [initial_request shared options systemPrompt msgs i]\<rparr>)
   \<and> (\<forall>e. failure (first_stream shared rt options systemPrompt msgs i) = Some e
          \<and> (status e = Some 503 \<or> String_includes (message e) ''503'')
          \<and> failure (retry_stream shared rt options systemPrompt msgs) = None \<longrightarrow>
      createMessage shared rt options systemPrompt msgs =
        \<lparr>yielded =
           first_fragments rt (events (first_stream shared rt options systemPrompt msgs i))
           @ retry_fragments (events (retry_stream shared rt options systemPrompt msgs))
           @ [ApiStreamTextChunk (TargonFormatResponse
                (response_summary rt (getModel shared options)
                   (concat (map extract_content
                      (events (first_stream shared rt options systemPrompt msgs i)))
                    @ concat (map retry_content
                      (events (retry_stream shared rt options systemPrompt msgs))))
                   (captured_tokensIn (events (first_stream shared rt options systemPrompt msgs i)))
                   (captured_tokensOut (events (first_stream shared rt options systemPrompt msgs i)))))],
         thrown = None,
         requests = [initial_request shared options systemPrompt msgs i,
                     retry_request shared options systemPrompt msgs]\<rparr>)
   \<and> (\<forall>body tin tout.
        TargonFormatResponse (response_summary rt (getModel shared options) body tin tout) =
          JSON_stringify (JObject
            [(''id'', JString (uuidv4 rt)),
             (''model'', JString (model_id (getModel shared options))),
             (''created'', JNumber (Date_now_start rt div 1000)),
             (''content'', JString body),
             (''tokensIn'', JNumber tin),
             (''tokensOut'', JNumber tout),
             (''tokensTotal'', JNumber (tin + tout)),
             (''timeTotal'', JNumber (Date_now_end rt - Date_now_start rt))]))
   \<and> ((\<forall>c \<in> set (events (first_stream shared rt options systemPrompt msgs i)).
          chunk_usage c = None) \<longrightarrow>
        captured_tokensIn (events (first_stream shared rt options systemPrompt msgs i)) = 0
        \<and> captured_tokensOut (events (first_stream shared rt options systemPrompt msgs i)) = 0)
   \<and> yielded (createMessage sample_shared run_hello sample_options ''Answer.'' sample_messages) =
       [ApiStreamTextChunk ''Hel'', ApiStreamTextChunk ''lo'',
        ApiStreamTextChunk ''{"id":"req-1","model":"deepseek-ai/DeepSeek-V3","created":1700000000,"content":"Hello","tokensIn":5,"tokensOut":2,"tokensTotal":7,"timeTotal":250}'']
   \<and> decode_json ''{"id":"req-1","model":"deepseek-ai/DeepSeek-V3","created":1700000000,"content":"Hello","tokensIn":5,"tokensOut":2,"tokensTotal":7,"timeTotal":250}'' =
       Some (JObject [(''id'', JString ''req-1''),
                      (''model'', JString ''deepseek-ai/DeepSeek-V3''),
                      (''created'', JNumber 1700000000),
                      (''content'', JString ''Hello''),
                      (''tokensIn'', JNumber 5),
                      (''tokensOut'', JNumber 2),
                      (''tokensTotal'', JNumber 7),
                      (''timeTotal'', JNumber 250)])\<close>
proof (intro conjI allI impI)
  assume "failure (first_stream shared rt options systemPrompt msgs i) = None"
  then show "createMessage shared rt options systemPrompt msgs =
      \<lparr>yielded =
         first_fragments rt (events (first_stream shared rt options systemPrompt msgs i))
         @ [ApiStreamTextChunk (TargonFormatResponse
              (response_summary rt (getModel shared options)
                 (concat (map extract_content
                    (events (first_stream shared rt options systemPrompt msgs i))))
                 (captured_tokensIn (events (first_stream shared rt options systemPrompt msgs i)))
                 (captured_tokensOut (events (first_stream shared rt options systemPrompt msgs i)))))],
       thrown = None,
       requests = [initial_request shared options systemPrompt msgs i]\<rparr>"
    by (rule createMessage_first_ok [OF assms])
next
  fix e
  assume h: "failure (first_stream shared rt options systemPrompt msgs i) = Some e
      \<and> (status e = Some 503 \<or> String_includes (message e) ''503'')
      \<and> failure (retry_stream shared rt options systemPrompt msgs) = None"
  then have f: "failure (first_stream shared rt options systemPrompt msgs i) = Some e"
    and s: "is_503 e"
    and r: "failure (retry_stream shared rt options systemPrompt msgs) = None"
    by (simp_all add: is_503_def)
  show "createMessage shared rt options systemPrompt msgs =
      \<lparr>yielded =
         first_fragments rt (events (first_stream shared rt options systemPrompt msgs i))
         @ retry_fragments (events (retry_stream shared rt options systemPrompt msgs))
         @ [ApiStreamTextChunk (TargonFormatResponse
              (response_summary rt (getModel shared options)
                 (concat (map extract_content
                    (events (first_stream shared rt options systemPrompt msgs i)))
                  @ concat (map retry_content
                    (events (retry_stream shared rt options systemPrompt msgs))))
                 (captured_tokensIn (events (first_stream shared rt options systemPrompt msgs i)))
                 (captured_tokensOut (events (first_stream shared rt options systemPrompt msgs i)))))],
       thrown = None,
       requests = [initial_request shared options systemPrompt msgs i,
                   retry_request shared options systemPrompt msgs]\<rparr>"
    by (rule createMessage_retry_ok [OF assms f s r])
next
  fix body tin tout
  show "TargonFormatResponse (response_summary rt (getModel shared options) body tin tout) =
      JSON_stringify (JObject
        [(''id'', JString (uuidv4 rt)),
         (''model'', JString (model_id (getModel shared options))),
         (''created'', JNumber (Date_now_start rt div 1000)),
         (''content'', JString body),
         (''tokensIn'', JNumber tin),
         (''tokensOut'', JNumber tout),
         (''tokensTotal'', JNumber (tin + tout)),
         (''timeTotal'', JNumber (Date_now_end rt - Date_now_start rt))])"
    by (simp only: TargonFormatResponse_def summary_object_response_summary)
next
  assume "\<forall>c \<in> set (events (first_stream shared rt options systemPrompt msgs i)).
      chunk_usage c = None"
  then have z: "captured_tokensIn (events (first_stream shared rt options systemPrompt msgs i)) = 0
      \<and> captured_tokensOut (events (first_stream shared rt options systemPrompt msgs i)) = 0"
    by (rule captured_tokens_zero)
  from z show "captured_tokensIn (events (first_stream shared rt options systemPrompt msgs i)) = 0"
    by simp
  from z show "captured_tokensOut (events (first_stream shared rt options systemPrompt msgs i)) = 0"
    by simp
qed (rule run_hello_yielded run_hello_decoded)+

text \<open>
  Both paths through the theorem: the stream "Hel", "lo", usage 5 and 2, that ends on the
  first attempt, and a first request rejected with status 503 whose retry streams "ok".
\<close>

theorem createMessage_summary_last_witness:
  \<open>createMessage sample_shared run_hello sample_options ''Answer.'' sample_messages =
     \<lparr>yielded =
        [ApiStreamTextChunk ''Hel'', ApiStreamTextChunk ''lo'',
         ApiStreamTextChunk ''{"id":"req-1","model":"deepseek-ai/DeepSeek-V3","created":1700000000,"content":"Hello","tokensIn":5,"tokensOut":2,"tokensTotal":7,"timeTotal":250}''],
      thrown = None,
      requests = [initial_request sample_shared sample_options ''Answer.'' sample_messages
                    \<lparr>maxTokens = Some 8192\<rparr>]\<rparr>
   \<and> createMessage sample_shared run_503_then_ok sample_options ''Be brief.'' sample_messages =
     \<lparr>yielded =
        [ApiStreamTextChunk ''ok'',
         ApiStreamTextChunk ''{"id":"req-1","model":"deepseek-ai/DeepSeek-V3","created":1700000000,"content":"ok","tokensIn":0,"tokensOut":0,"tokensTotal":0,"timeTotal":250}''],
      thrown = None,
      requests = [initial_request sample_shared sample_options ''Be brief.'' sample_messages
                    \<lparr>maxTokens = Some 8192\<rparr>,
                  retry_request sample_shared sample_options ''Be brief.'' sample_messages]\<rparr>\<close>
proof -
  let ?i = "\<lparr>maxTokens = Some 8192\<rparr>"
  let ?h = "first_stream sample_shared run_hello sample_options ''Answer.'' sample_messages ?i"
  let ?s1 = "first_stream sample_shared run_503_then_ok sample_options ''Be brief.''
      sample_messages ?i"
  let ?s2 = "retry_stream sample_shared run_503_then_ok sample_options ''Be brief.''
      sample_messages"
  let ?e = "\<lparr>status = Some 503, message = ''Service Unavailable''\<rparr>"
  have ended: "failure ?h = None" by code_simp
  have h_fragments: "first_fragments run_hello (events ?h) =
      [ApiStreamTextChunk ''Hel'', ApiStreamTextChunk ''lo'']"
    by code_simp
  have h_summary: \<open>TargonFormatResponse
      (response_summary run_hello (getModel sample_shared sample_options)
         (concat (map extract_content (events ?h)))
         (captured_tokensIn (events ?h)) (captured_tokensOut (events ?h)))
      = ''{"id":"req-1","model":"deepseek-ai/DeepSeek-V3","created":1700000000,"content":"Hello","tokensIn":5,"tokensOut":2,"tokensTotal":7,"timeTotal":250}''\<close>
    by code_simp
  have f: "failure ?s1 = Some ?e \<and> (status ?e = Some 503 \<or> String_includes (message ?e) ''503'')
      \<and> failure ?s2 = None"
    by code_simp
  have r_first: "first_fragments run_503_then_ok (events ?s1) = []"
    by code_simp
  have r_retry: "retry_fragments (events ?s2) = [ApiStreamTextChunk ''ok'']"
    by code_simp
  have r_summary: \<open>TargonFormatResponse
      (response_summary run_503_then_ok (getModel sample_shared sample_options)
         (concat (map extract_content (events ?s1)) @ concat (map retry_content (events ?s2)))
         (captured_tokensIn (events ?s1)) (captured_tokensOut (events ?s1)))
      = ''{"id":"req-1","model":"deepseek-ai/DeepSeek-V3","created":1700000000,"content":"ok","tokensIn":0,"tokensOut":0,"tokensTotal":0,"timeTotal":250}''\<close>
    by code_simp
  note first = createMessage_summary_last [OF sample_key sample_info, of run_hello "''Answer.''"
      sample_messages, THEN conjunct1, rule_format, OF ended]
  note retry = createMessage_summary_last [OF sample_key sample_info, of run_503_then_ok
      "''Be brief.''" sample_messages, THEN conjunct2, THEN conjunct1, rule_format, OF f]
  from first retry show ?thesis
    unfolding h_fragments h_summary r_first r_retry r_summary by simp
qed

subsection \<open>Tool calls\<close>

lemma tool_call_text_question:
  assumes "map_of kvs ''question'' = Some (JString q)" and "q \<noteq> []"
  shows "tool_call_text (JObject kvs) =
           Some (followup_block q
             (case map_of kvs ''options'' of
                None \<Rightarrow> []
              | Some os \<Rightarrow> if truthy os \<and> length_positive os then options_block os else []))"
  using assms
  by (simp add: tool_call_text_def get_member_def followup_block_def options_block_def
      split: option.splits)

lemma tool_call_text_no_question:
  assumes "map_of kvs ''question'' = None \<or> map_of kvs ''question'' = Some (JString [])"
  shows "tool_call_text (JObject kvs) = None"
  using assms by (auto simp: tool_call_text_def get_member_def)

lemma followup_call_fragments:
  "tool_call_fragments parse (followup_call a) =
     (if a = [] then []
      else case parse a of
             None \<Rightarrow> []
           | Some JNull \<Rightarrow> []
           | Some args \<Rightarrow> (case tool_call_text args of None \<Rightarrow> [] | Some t \<Rightarrow> [ApiStreamTextChunk t]))"
  by (simp add: tool_call_fragments_def followup_call_def try_tool_call_def or_empty_def
      tool_call_text_def get_member_def split: option.splits json.splits)

lemma thrown_independent_of_JSON_parse:
  "thrown (createMessage shared (rt\<lparr>JSON_parse := p\<rparr>) options systemPrompt msgs) =
   thrown (createMessage shared rt options systemPrompt msgs)"
  by (simp add: createMessage_def catch_block_def Let_def split: option.splits)

lemma first_fragments_prefix_yielded:
  assumes "or_empty (targonApiKey options) \<noteq> []"
    and "info (getModel shared options) = Some i"
  shows "prefix (first_fragments rt (events (first_stream shared rt options systemPrompt msgs i)))
           (yielded (createMessage shared rt options systemPrompt msgs))"
proof (cases "failure (first_stream shared rt options systemPrompt msgs i)")
  case None
  with assms show ?thesis by (simp add: createMessage_first_ok)
next
  case e: (Some e)
  show ?thesis
  proof (cases "is_503 e")
    case False
    with assms e show ?thesis by (simp add: createMessage_first_failed)
  next
    case True
    show ?thesis
    proof (cases "failure (retry_stream shared rt options systemPrompt msgs)")
      case None
      with assms e True show ?thesis by (simp add: createMessage_retry_ok)
    next
      case (Some e')
      with assms e True show ?thesis by (simp add: createMessage_retry_failed)
    qed
  qed
qed

lemma first_fragments_unfold:
  "first_fragments rt cs =
     concat (map (\<lambda>c. (if extract_content c \<noteq> [] then [ApiStreamTextChunk (extract_content c)] else [])
                       @ concat (map (tool_call_fragments (JSON_parse rt)) (chunk_tool_calls c))) cs)"
  by (induction cs) (simp_all add: first_fragments_def chunk_fragments_def)

lemma run_pick_one_yielded:
  \<open>yielded (createMessage sample_shared run_pick_one sample_options ''Be brief.'' sample_messages) =
     [ApiStreamTextChunk (''<ask_followup_question>'' @ [CHR 0x0A]
        @ ''<question>Pick one</question>'' @ [CHR 0x0A] @ ''</ask_followup_question>''),
      ApiStreamTextChunk ''{"id":"req-1","model":"deepseek-ai/DeepSeek-V3","created":1700000000,"content":"","tokensIn":0,"tokensOut":0,"tokensTotal":0,"timeTotal":250}'']\<close>
  by code_simp

text \<open>
  Against claim C4 as stated: the argument text arrives in two tool-call deltas. Put
  together the two parts decode to an object with the question "Pick one", but the call
  yields its summary only.
\<close>

theorem createMessage_split_arguments_counterexample:
  \<open>events (first_stream sample_shared run_split_arguments sample_options ''Be brief.''
      sample_messages \<lparr>maxTokens = Some 8192\<rparr>)
     = [tool_call_chunk ''{"question": "Pick'', tool_call_chunk '' one"}'']
   \<and> decode_json (''{"question": "Pick'' @ '' one"}'')
     = Some (JObject [(''question'', JString ''Pick one'')])
   \<and> createMessage sample_shared run_split_arguments sample_options ''Be brief.'' sample_messages
     = \<lparr>yielded = [ApiStreamTextChunk ''{"id":"req-1","model":"deepseek-ai/DeepSeek-V3","created":1700000000,"content":"","tokensIn":0,"tokensOut":0,"tokensTotal":0,"timeTotal":250}''],
        thrown = None,
        requests = [initial_request sample_shared sample_options ''Be brief.'' sample_messages
                      \<lparr>maxTokens = Some 8192\<rparr>]\<rparr>\<close>
  by code_simp

text \<open>
  Claim C4, amended. The argument text of each tool-call delta that names
  \<^verbatim>\<open>ask_followup_question\<close> is decoded on its own; nothing is accumulated from one delta
  to the next. When the text of one delta decodes to an object whose question is a
  non-empty string, the adapter yields the tagged block with that question, with an
  options block that holds the JSON text of the options when they are a non-empty array,
  and without one when there are none or they are an empty array. Argument text that does
  not decode, and an object without a question or with an empty one, yield nothing. The
  blocks are among the fragments the caller receives, and whatever the decoder does, the
  error thrown by the call, if any, is the same: decoding never raises to the caller.
  The arguments \<^verbatim>\<open>{"question": "Pick one"}\<close> yield the block of the specification.
\<close>

theorem tool_call_synthesis:
  \<open>(\<forall>a kvs q.
      a \<noteq> [] \<and> parse a = Some (JObject kvs)
      \<and> map_of kvs ''question'' = Some (JString q) \<and> q \<noteq> []
      \<and> (map_of kvs ''options'' = None \<or> map_of kvs ''options'' = Some (JArray []))
      \<longrightarrow> tool_call_fragments parse (followup_call a) =
            [ApiStreamTextChunk (''<ask_followup_question>'' @ [CHR 0x0A]
               @ ''<question>'' @ q @ ''</question>''
               @ [CHR 0x0A] @ ''</ask_followup_question>'')])
   \<and> (\<forall>a kvs q os.
      a \<noteq> [] \<and> parse a = Some (JObject kvs)
      \<and> map_of kvs ''question'' = Some (JString q) \<and> q \<noteq> []
      \<and> map_of kvs ''options'' = Some (JArray os) \<and> os \<noteq> []
      \<longrightarrow> tool_call_fragments parse (followup_call a) =
            [ApiStreamTextChunk (''<ask_followup_question>'' @ [CHR 0x0A]
               @ ''<question>'' @ q @ ''</question>''
               @ [CHR 0x0A] @ ''<options>'' @ [CHR 0x0A] @ JSON_stringify (JArray os)
               @ [CHR 0x0A] @ ''</options>''
               @ [CHR 0x0A] @ ''</ask_followup_question>'')])
   \<and> (\<forall>a. parse a = None \<longrightarrow> tool_call_fragments parse (followup_call a) = [])
   \<and> (\<forall>a kvs.
      parse a = Some (JObject kvs)
      \<and> (map_of kvs ''question'' = None \<or> map_of kvs ''question'' = Some (JString []))
      \<longrightarrow> tool_call_fragments parse (followup_call a) = [])
   \<and> (or_empty (targonApiKey options) \<noteq> [] \<and> info (getModel shared options) = Some i
      \<longrightarrow> prefix
            (concat (map (\<lambda>c.
               (if extract_content c \<noteq> [] then [ApiStreamTextChunk (extract_content c)] else [])
               @ concat (map (tool_call_fragments (JSON_parse rt)) (chunk_tool_calls c)))
               (events (first_stream shared rt options systemPrompt msgs i))))
            (yielded (createMessage shared rt options systemPrompt msgs)))
   \<and> (\<forall>p. thrown (createMessage shared (rt\<lparr>JSON_parse := p\<rparr>) options systemPrompt msgs) =
            thrown (createMessage shared rt options systemPrompt msgs))
   \<and> yielded (createMessage sample_shared run_pick_one sample_options ''Be brief.'' sample_messages) =
       [ApiStreamTextChunk (''<ask_followup_question>'' @ [CHR 0x0A]
          @ ''<question>Pick one</question>'' @ [CHR 0x0A] @ ''</ask_followup_question>''),
        ApiStreamTextChunk ''{"id":"req-1","model":"deepseek-ai/DeepSeek-V3","created":1700000000,"content":"","tokensIn":0,"tokensOut":0,"tokensTotal":0,"timeTotal":250}'']\<close>
proof (intro conjI allI impI)
  fix a kvs q
  assume "a \<noteq> [] \<and> parse a = Some (JObject kvs)
      \<and> map_of kvs ''question'' = Some (JString q) \<and> q \<noteq> []
      \<and> (map_of kvs ''options'' = None \<or> map_of kvs ''options'' = Some (JArray []))"
  then show "tool_call_fragments parse (followup_call a) =
      [ApiStreamTextChunk (''<ask_followup_question>'' @ [CHR 0x0A]
         @ ''<question>'' @ q @ ''</question>''
         @ [CHR 0x0A] @ ''</ask_followup_question>'')]"
    by (auto simp: followup_call_fragments tool_call_text_question followup_block_def)
next
  fix a kvs q os
  assume "a \<noteq> [] \<and> parse a = Some (JObject kvs)
      \<and> map_of kvs ''question'' = Some (JString q) \<and> q \<noteq> []
      \<and> map_of kvs ''options'' = Some (JArray os) \<and> os \<noteq> []"
  then show "tool_call_fragments parse (followup_call a) =
      [ApiStreamTextChunk (''<ask_followup_question>'' @ [CHR 0x0A]
         @ ''<question>'' @ q @ ''</question>''
         @ [CHR 0x0A] @ ''<options>'' @ [CHR 0x0A] @ JSON_stringify (JArray os)
         @ [CHR 0x0A] @ ''</options>''
         @ [CHR 0x0A] @ ''</ask_followup_question>'')]"
    by (simp add: followup_call_fragments tool_call_text_question followup_block_def
        options_block_def)
next
  fix a
  assume "parse a = None"
  then show "tool_call_fragments parse (followup_call a) = []"
    by (simp add: followup_call_fragments)
next
  fix a kvs
  assume "parse a = Some (JObject kvs)
      \<and> (map_of kvs ''question'' = None \<or> map_of kvs ''question'' = Some (JString []))"
  then show "tool_call_fragments parse (followup_call a) = []"
    by (simp add: followup_call_fragments tool_call_text_no_question)
next
  assume "or_empty (targonApiKey options) \<noteq> [] \<and> info (getModel shared options) = Some i"
  then show "prefix
      (concat (map (\<lambda>c.
         (if extract_content c \<noteq> [] then [ApiStreamTextChunk (extract_content c)] else [])
         @ concat (map (tool_call_fragments (JSON_parse rt)) (chunk_tool_calls c)))
         (events (first_stream shared rt options systemPrompt msgs i))))
      (yielded (createMessage shared rt options systemPrompt msgs))"
    using first_fragments_prefix_yielded [of options shared i rt systemPrompt msgs]
    by (simp add: first_fragments_unfold)
next
  fix p
  show "thrown (createMessage shared (rt\<lparr>JSON_parse := p\<rparr>) options systemPrompt msgs) =
      thrown (createMessage shared rt options systemPrompt msgs)"
    by (rule thrown_independent_of_JSON_parse)
qed (rule run_pick_one_yielded)

text \<open>The arguments of the specification's example, one tool call decoded on its own.\<close>

theorem tool_call_synthesis_witness:
  \<open>''{"question": "Pick one"}'' \<noteq> []
   \<and> decode_json ''{"question": "Pick one"}'' = Some (JObject [(''question'', JString ''Pick one'')])
   \<and> tool_call_fragments decode_json (followup_call ''{"question": "Pick one"}'') =
       [ApiStreamTextChunk (''<ask_followup_question>'' @ [CHR 0x0A]
          @ ''<question>Pick one</question>'' @ [CHR 0x0A] @ ''</ask_followup_question>'')]
   \<and> tool_call_fragments decode_json (followup_call ''{"question": "Pick'') = []\<close>
proof -
  have d: \<open>decode_json ''{"question": "Pick one"}'' =
      Some (JObject [(''question'', JString ''Pick one'')])\<close>
    by code_simp
  have n: \<open>decode_json ''{"question": "Pick'' = None\<close>
    by code_simp
  have h: \<open>''{"question": "Pick one"}'' \<noteq> []
      \<and> decode_json ''{"question": "Pick one"}'' = Some (JObject [(''question'', JString ''Pick one'')])
      \<and> map_of [(''question'', JString ''Pick one'')] ''question'' = Some (JString ''Pick one'')
      \<and> ''Pick one'' \<noteq> []
      \<and> (map_of [(''question'', JString ''Pick one'')] ''options'' = None
          \<or> map_of [(''question'', JString ''Pick one'')] ''options'' = Some (JArray []))\<close>
    using d by simp
  note T = tool_call_synthesis [where parse = decode_json and shared = sample_shared
      and rt = run_pick_one and options = sample_options and systemPrompt = "''Be brief.''"
      and msgs = sample_messages and i = "\<lparr>maxTokens = Some 8192\<rparr>"]
  from T h have 1: \<open>tool_call_fragments decode_json (followup_call ''{"question": "Pick one"}'') =
      [ApiStreamTextChunk (''<ask_followup_question>'' @ [CHR 0x0A]
         @ ''<question>'' @ ''Pick one'' @ ''</question>''
         @ [CHR 0x0A] @ ''</ask_followup_question>'')]\<close>
    by blast
  from T n have 2: \<open>tool_call_fragments decode_json (followup_call ''{"question": "Pick'') = []\<close>
    by blast
  from 1 2 d show ?thesis by simp
qed

subsection \<open>What the summary reports\<close>

lemma last_usage_append_none:
  assumes "\<forall>c \<in> set ds. chunk_usage c = None"
  shows "last_usage (cs @ ds) = last_usage cs"
  using assms
proof (induction ds rule: rev_induct)
  case Nil
  show ?case by simp
next
  case (snoc d ds)
  from snoc.prems have "chunk_usage d = None" by simp
  with last_usage_snoc [of "cs @ ds" d] have "last_usage (cs @ ds @ [d]) = last_usage (cs @ ds)"
    by simp
  with snoc show ?case by simp
qed

lemma last_usage_last_carrier:
  assumes "chunk_usage c = Some u" and "\<forall>c' \<in> set ds. chunk_usage c' = None"
  shows "last_usage (cs @ [c] @ ds) = Some u"
proof -
  from assms(2) have "last_usage ((cs @ [c]) @ ds) = last_usage (cs @ [c])"
    by (rule last_usage_append_none)
  with assms(1) show ?thesis by (simp add: last_usage_snoc)
qed

lemma captured_tokens_last_carrier:
  assumes "chunk_usage c = Some u" and "\<forall>c' \<in> set ds. chunk_usage c' = None"
  shows "captured_tokensIn (cs @ [c] @ ds) = or_zero (prompt_tokens u)
       \<and> captured_tokensOut (cs @ [c] @ ds) = or_zero (completion_tokens u)"
  using last_usage_last_carrier [OF assms, of cs]
  by (simp add: captured_tokensIn_def captured_tokensOut_def)

text \<open>
  Claim C9. On the retry path nothing is reset. When the first attempt fails with a 503
  and the retry ends, the summary is the last fragment; its content is the text extracted
  from the events of the first attempt followed by the text of the retry, and its token
  counts are those captured from the first attempt: zero when no event of the first
  attempt carried usage, otherwise the counts of the last such event. The events of the
  retry have no part in the counts.
\<close>

theorem createMessage_retry_summary:
  assumes "or_empty (targonApiKey options) \<noteq> []"
    and "info (getModel shared options) = Some i"
    and "failure (first_stream shared rt options systemPrompt msgs i) = Some e"
    and "status e = Some 503 \<or> String_includes (message e) ''503''"
    and "failure (retry_stream shared rt options systemPrompt msgs) = None"
  shows "\<exists>tin tout.
      last (yielded (createMessage shared rt options systemPrompt msgs)) =
        ApiStreamTextChunk (TargonFormatResponse
          (response_summary rt (getModel shared options)
             (concat (map extract_content (events (first_stream shared rt options systemPrompt msgs i)))
              @ concat (map retry_content (events (retry_stream shared rt options systemPrompt msgs))))
             tin tout))
      \<and> ((\<forall>c \<in> set (events (first_stream shared rt options systemPrompt msgs i)).
             chunk_usage c = None) \<longrightarrow> tin = 0 \<and> tout = 0)
      \<and> (\<forall>cs c u ds.
            events (first_stream shared rt options systemPrompt msgs i) = cs @ [c] @ ds
            \<and> chunk_usage c = Some u \<and> (\<forall>c' \<in> set ds. chunk_usage c' = None)
            \<longrightarrow> tin = or_zero (prompt_tokens u) \<and> tout = or_zero (completion_tokens u))"
proof -
  from assms(4) have is503: "is_503 e" by (simp add: is_503_def)
  let ?cs = "events (first_stream shared rt options systemPrompt msgs i)"
  from createMessage_retry_ok [OF assms(1-3) is503 assms(5)]
  have "last (yielded (createMessage shared rt options systemPrompt msgs)) =
      ApiStreamTextChunk (TargonFormatResponse
        (response_summary rt (getModel shared options)
           (concat (map extract_content ?cs)
            @ concat (map retry_content (events (retry_stream shared rt options systemPrompt msgs))))
           (captured_tokensIn ?cs) (captured_tokensOut ?cs)))"
    by simp
  moreover have "(\<forall>c \<in> set ?cs. chunk_usage c = None) \<longrightarrow>
      captured_tokensIn ?cs = 0 \<and> captured_tokensOut ?cs = 0"
    using captured_tokens_zero by blast
  moreover have "\<forall>cs c u ds.
      ?cs = cs @ [c] @ ds \<and> chunk_usage c = Some u \<and> (\<forall>c' \<in> set ds. chunk_usage c' = None)
      \<longrightarrow> captured_tokensIn ?cs = or_zero (prompt_tokens u)
          \<and> captured_tokensOut ?cs = or_zero (completion_tokens u)"
  proof (intro allI impI)
    fix cs c u ds
    assume h: "?cs = cs @ [c] @ ds \<and> chunk_usage c = Some u
        \<and> (\<forall>c' \<in> set ds. chunk_usage c' = None)"
    then have "chunk_usage c = Some u" and "\<forall>c' \<in> set ds. chunk_usage c' = None"
      by simp_all
    from captured_tokens_last_carrier [OF this, of cs] h
    show "captured_tokensIn ?cs = or_zero (prompt_tokens u)
        \<and> captured_tokensOut ?cs = or_zero (completion_tokens u)"
      by simp
  qed
  ultimately show ?thesis by blast
qed

text \<open>
  A first attempt that streamed "par" and the counts 3 and 1 before its 503, a retry that
  streamed "tial" and the counts 9 and 9: the summary has "partial", 3 and 1.
\<close>

theorem createMessage_retry_summary_witness:
  \<open>thrown (createMessage sample_shared run_partial_then_retry sample_options ''Be brief.''
      sample_messages) = None
   \<and> yielded (createMessage sample_shared run_partial_then_retry sample_options ''Be brief.''
      sample_messages) =
       [ApiStreamTextChunk ''par'', ApiStreamTextChunk ''tial'',
        ApiStreamTextChunk ''{"id":"req-1","model":"deepseek-ai/DeepSeek-V3","created":1700000000,"content":"partial","tokensIn":3,"tokensOut":1,"tokensTotal":4,"timeTotal":250}'']
   \<and> last (yielded (createMessage sample_shared run_partial_then_retry sample_options ''Be brief.''
      sample_messages)) =
       ApiStreamTextChunk (TargonFormatResponse
         (response_summary run_partial_then_retry (getModel sample_shared sample_options)
            ''partial'' 3 1))\<close>
proof -
  let ?e = "\<lparr>status = None, message = ''503 Service Unavailable''\<rparr>"
  let ?s1 = "first_stream sample_shared run_partial_then_retry sample_options ''Be brief.''
      sample_messages \<lparr>maxTokens = Some 8192\<rparr>"
  let ?s2 = "retry_stream sample_shared run_partial_then_retry sample_options ''Be brief.''
      sample_messages"
  let ?out = "createMessage sample_shared run_partial_then_retry sample_options ''Be brief.''
      sample_messages"
  have f: "failure ?s1 = Some ?e" by code_simp
  have s: "status ?e = Some 503 \<or> String_includes (message ?e) ''503''" by code_simp
  have r: "failure ?s2 = None" by code_simp
  have ev: "events ?s1 = [content_chunk ''par''] @ [usage_chunk 3 1] @ []" by code_simp
  have u: "chunk_usage (usage_chunk 3 1) = Some \<lparr>prompt_tokens = Some 3, completion_tokens = Some 1\<rparr>"
    by code_simp
  have body: "concat (map extract_content (events ?s1)) @ concat (map retry_content (events ?s2))
      = ''partial''"
    by code_simp
  from createMessage_retry_summary [OF sample_key sample_info f s r]
  obtain tin tout where
    l: "last (yielded ?out) = ApiStreamTextChunk (TargonFormatResponse
          (response_summary run_partial_then_retry (getModel sample_shared sample_options)
             (concat (map extract_content (events ?s1)) @ concat (map retry_content (events ?s2)))
             tin tout))"
    and c: "\<forall>cs c u ds. events ?s1 = cs @ [c] @ ds
            \<and> chunk_usage c = Some u \<and> (\<forall>c' \<in> set ds. chunk_usage c' = None)
            \<longrightarrow> tin = or_zero (prompt_tokens u) \<and> tout = or_zero (completion_tokens u)"
    by blast
  from c [rule_format, where cs = "[content_chunk ''par'']" and c = "usage_chunk 3 1"
      and ds = "[]" and u = "\<lparr>prompt_tokens = Some 3, completion_tokens = Some 1\<rparr>"] ev u
  have "tin = 3 \<and> tout = 1"
    by (simp add: or_zero_def)
  with l body have 3: "last (yielded ?out) = ApiStreamTextChunk (TargonFormatResponse
      (response_summary run_partial_then_retry (getModel sample_shared sample_options)
         ''partial'' 3 1))"
    by simp
  have 1: "thrown ?out = None" by code_simp
  have 2: \<open>yielded ?out =
      [ApiStreamTextChunk ''par'', ApiStreamTextChunk ''tial'',
       ApiStreamTextChunk ''{"id":"req-1","model":"deepseek-ai/DeepSeek-V3","created":1700000000,"content":"partial","tokensIn":3,"tokensOut":1,"tokensTotal":4,"timeTotal":250}'']\<close>
    by code_simp
  from 1 2 3 show ?thesis by simp
qed

subsection \<open>The text of the summary\<close>

lemma thrown_None_key:
  assumes "thrown (createMessage shared rt options systemPrompt msgs) = None"
  shows "or_empty (targonApiKey options) \<noteq> []"
proof
  assume "or_empty (targonApiKey options) = []"
  from createMessage_no_key [OF this, of shared rt systemPrompt msgs] assms
  show False by simp
qed

lemma createMessage_last_yielded:
  assumes "thrown (createMessage shared rt options systemPrompt msgs) = None"
  shows "\<exists>i body.
      info (getModel shared options) = Some i
      \<and> last (yielded (createMessage shared rt options systemPrompt msgs)) =
          ApiStreamTextChunk (TargonFormatResponse
            (response_summary rt (getModel shared options) body
               (captured_tokensIn (events (first_stream shared rt options systemPrompt msgs i)))
               (captured_tokensOut (events (first_stream shared rt options systemPrompt msgs i)))))
      \<and> (failure (first_stream shared rt options systemPrompt msgs i) = None
            \<and> body = concat (map extract_content
                 (events (first_stream shared rt options systemPrompt msgs i)))
          \<or> failure (first_stream shared rt options systemPrompt msgs i) \<noteq> None
            \<and> body = concat (map extract_content
                 (events (first_stream shared rt options systemPrompt msgs i)))
               @ concat (map retry_content
                 (events (retry_stream shared rt options systemPrompt msgs))))"
proof -
  note key = thrown_None_key [OF assms]
  obtain i where i: "info (getModel shared options) = Some i"
  proof (cases "info (getModel shared options)")
    case None
    from createMessage_no_info [OF key None, of rt systemPrompt msgs] assms
    show ?thesis by simp
  next
    case (Some i)
    then show ?thesis by (rule that)
  qed
  show ?thesis
  proof (cases "failure (first_stream shared rt options systemPrompt msgs i)")
    case None
    from createMessage_first_ok [OF key i None] i None show ?thesis
      by (intro exI [of _ i]) auto
  next
    case e: (Some e)
    show ?thesis
    proof (cases "is_503 e")
      case False
      from createMessage_first_failed [OF key i e False] assms show ?thesis by simp
    next
      case True
      show ?thesis
      proof (cases "failure (retry_stream shared rt options systemPrompt msgs)")
        case None
        from createMessage_retry_ok [OF key i e True None] i e show ?thesis
          by (intro exI [of _ i]) auto
      next
        case (Some e')
        from createMessage_retry_failed [OF key i e True Some] assms show ?thesis by simp
      qed
    qed
  qed
qed

lemma streams_independent_of_JSON_parse:
  "first_stream shared (rt\<lparr>JSON_parse := p\<rparr>) options systemPrompt msgs i =
     first_stream shared rt options systemPrompt msgs i"
  "retry_stream shared (rt\<lparr>JSON_parse := p\<rparr>) options systemPrompt msgs =
     retry_stream shared rt options systemPrompt msgs"
  "response_summary (rt\<lparr>JSON_parse := p\<rparr>) mdl body tin tout = response_summary rt mdl body tin tout"
  by (simp_all add: first_stream_def retry_stream_def response_summary_def)

lemma summary_independent_of_JSON_parse:
  assumes "thrown (createMessage shared rt options systemPrompt msgs) = None"
  shows "last (yielded (createMessage shared (rt\<lparr>JSON_parse := p\<rparr>) options systemPrompt msgs)) =
         last (yielded (createMessage shared rt options systemPrompt msgs))"
proof -
  let ?rt = "rt\<lparr>JSON_parse := p\<rparr>"
  from assms have ok': "thrown (createMessage shared ?rt options systemPrompt msgs) = None"
    by (simp add: thrown_independent_of_JSON_parse)
  from createMessage_last_yielded [OF assms] obtain i body where
    i: "info (getModel shared options) = Some i"
    and l: "last (yielded (createMessage shared rt options systemPrompt msgs)) =
          ApiStreamTextChunk (TargonFormatResponse
            (response_summary rt (getModel shared options) body
               (captured_tokensIn (events (first_stream shared rt options systemPrompt msgs i)))
               (captured_tokensOut (events (first_stream shared rt options systemPrompt msgs i)))))"
    and b: "failure (first_stream shared rt options systemPrompt msgs i) = None
            \<and> body = concat (map extract_content
                 (events (first_stream shared rt options systemPrompt msgs i)))
          \<or> failure (first_stream shared rt options systemPrompt msgs i) \<noteq> None
            \<and> body = concat (map extract_content
                 (events (first_stream shared rt options systemPrompt msgs i)))
               @ concat (map retry_content
                 (events (retry_stream shared rt options systemPrompt msgs)))"
    by blast
  from createMessage_last_yielded [OF ok'] obtain i' body' where
    i': "info (getModel shared options) = Some i'"
    and l': "last (yielded (createMessage shared ?rt options systemPrompt msgs)) =
          ApiStreamTextChunk (TargonFormatResponse
            (response_summary rt (getModel shared options) body'
               (captured_tokensIn (events (first_stream shared rt options systemPrompt msgs i')))
               (captured_tokensOut (events (first_stream shared rt options systemPrompt msgs i')))))"
    and b': "failure (first_stream shared rt options systemPrompt msgs i') = None
            \<and> body' = concat (map extract_content
                 (events (first_stream shared rt options systemPrompt msgs i')))
          \<or> failure (first_stream shared rt options systemPrompt msgs i') \<noteq> None
            \<and> body' = concat (map extract_content
                 (events (first_stream shared rt options systemPrompt msgs i')))
               @ concat (map retry_content
                 (events (retry_stream shared rt options systemPrompt msgs)))"
    unfolding streams_independent_of_JSON_parse by blast
  from i i' have "i' = i" by simp
  with b b' have "body' = body" by auto
  with l l' \<open>i' = i\<close> show ?thesis by simp
qed

lemma run_text_and_tool_yielded:
  \<open>yielded (createMessage sample_shared run_text_and_tool sample_options ''Be brief.''
      sample_messages) =
     [ApiStreamTextChunk ''Sure.'',
      ApiStreamTextChunk (''<ask_followup_question>'' @ [CHR 0x0A]
        @ ''<question>Pick one</question>'' @ [CHR 0x0A] @ ''</ask_followup_question>''),
      ApiStreamTextChunk ''{"id":"req-1","model":"deepseek-ai/DeepSeek-V3","created":1700000000,"content":"Sure.","tokensIn":0,"tokensOut":0,"tokensTotal":0,"timeTotal":250}'']\<close>
  by code_simp

text \<open>
  Claim C10. The loop appends to the response buffer the text it extracts from the events
  and nothing else: the tagged blocks it synthesizes from tool calls are yielded but not
  appended. So for every call that ends with a summary, the content of the summary is the
  concatenation of the texts extracted from the events (followed, after a 503, by the
  texts of the retry), and the summary is the same whatever the decoder makes of the
  tool-call arguments, also when it rejects them all and no block is yielded.
\<close>

theorem summary_content_excludes_tool_calls:
  \<open>(\<forall>p st cs. responseText (foldl (process_chunk p) st cs) =
        responseText st @ concat (map extract_content cs))
   \<and> (thrown (createMessage shared rt options systemPrompt msgs) = None \<longrightarrow>
        (\<exists>i body tin tout.
           info (getModel shared options) = Some i
           \<and> last (yielded (createMessage shared rt options systemPrompt msgs)) =
               ApiStreamTextChunk (TargonFormatResponse
                 (response_summary rt (getModel shared options) body tin tout))
           \<and> (failure (first_stream shared rt options systemPrompt msgs i) = None
                 \<and> body = concat (map extract_content
                      (events (first_stream shared rt options systemPrompt msgs i)))
               \<or> failure (first_stream shared rt options systemPrompt msgs i) \<noteq> None
                 \<and> body = concat (map extract_content
                      (events (first_stream shared rt options systemPrompt msgs i)))
                    @ concat (map retry_content
                      (events (retry_stream shared rt options systemPrompt msgs)))))
        \<and> (\<forall>p. last (yielded (createMessage shared (rt\<lparr>JSON_parse := p\<rparr>) options
                         systemPrompt msgs)) =
                 last (yielded (createMessage shared rt options systemPrompt msgs))))
   \<and> yielded (createMessage sample_shared run_text_and_tool sample_options ''Be brief.''
        sample_messages) =
       [ApiStreamTextChunk ''Sure.'',
        ApiStreamTextChunk (''<ask_followup_question>'' @ [CHR 0x0A]
          @ ''<question>Pick one</question>'' @ [CHR 0x0A] @ ''</ask_followup_question>''),
        ApiStreamTextChunk ''{"id":"req-1","model":"deepseek-ai/DeepSeek-V3","created":1700000000,"content":"Sure.","tokensIn":0,"tokensOut":0,"tokensTotal":0,"timeTotal":250}'']\<close>
proof (intro conjI allI impI)
  fix p st cs
  show "responseText (foldl (process_chunk p) st cs) =
      responseText st @ concat (map extract_content cs)"
    by (rule responseText_foldl_process_chunk)
next
  assume ok: "thrown (createMessage shared rt options systemPrompt msgs) = None"
  from createMessage_last_yielded [OF ok]
  show "\<exists>i body tin tout.
      info (getModel shared options) = Some i
      \<and> last (yielded (createMessage shared rt options systemPrompt msgs)) =
          ApiStreamTextChunk (TargonFormatResponse
            (response_summary rt (getModel shared options) body tin tout))
      \<and> (failure (first_stream shared rt options systemPrompt msgs i) = None
            \<and> body = concat (map extract_content
                 (events (first_stream shared rt options systemPrompt msgs i)))
          \<or> failure (first_stream shared rt options systemPrompt msgs i) \<noteq> None
            \<and> body = concat (map extract_content
                 (events (first_stream shared rt options systemPrompt msgs i)))
               @ concat (map retry_content
                 (events (retry_stream shared rt options systemPrompt msgs))))"
    by blast
next
  fix p
  assume ok: "thrown (createMessage shared rt options systemPrompt msgs) = None"
  then show "last (yielded (createMessage shared (rt\<lparr>JSON_parse := p\<rparr>) options
        systemPrompt msgs)) =
      last (yielded (createMessage shared rt options systemPrompt msgs))"
    by (rule summary_independent_of_JSON_parse)
qed (rule run_text_and_tool_yielded)

text \<open>
  The run with the text "Sure." and a tool call: its summary is the one of the same run
  with a decoder that rejects every argument text, in which no block is yielded.
\<close>

theorem summary_content_excludes_tool_calls_witness:
  \<open>thrown (createMessage sample_shared run_text_and_tool sample_options ''Be brief.''
      sample_messages) = None
   \<and> last (yielded (createMessage sample_shared (run_text_and_tool\<lparr>JSON_parse := \<lambda>s. None\<rparr>)
        sample_options ''Be brief.'' sample_messages)) =
     last (yielded (createMessage sample_shared run_text_and_tool sample_options ''Be brief.''
        sample_messages))
   \<and> yielded (createMessage sample_shared (run_text_and_tool\<lparr>JSON_parse := \<lambda>s. None\<rparr>)
        sample_options ''Be brief.'' sample_messages) =
       [ApiStreamTextChunk ''Sure.'',
        ApiStreamTextChunk ''{"id":"req-1","model":"deepseek-ai/DeepSeek-V3","created":1700000000,"content":"Sure.","tokensIn":0,"tokensOut":0,"tokensTotal":0,"timeTotal":250}'']\<close>
proof -
  have ok: "thrown (createMessage sample_shared run_text_and_tool sample_options ''Be brief.''
      sample_messages) = None"
    by code_simp
  have y: \<open>yielded (createMessage sample_shared (run_text_and_tool\<lparr>JSON_parse := \<lambda>s. None\<rparr>)
        sample_options ''Be brief.'' sample_messages) =
       [ApiStreamTextChunk ''Sure.'',
        ApiStreamTextChunk ''{"id":"req-1","model":"deepseek-ai/DeepSeek-V3","created":1700000000,"content":"Sure.","tokensIn":0,"tokensOut":0,"tokensTotal":0,"timeTotal":250}'']\<close>
    by code_simp
  from summary_content_excludes_tool_calls [of sample_shared run_text_and_tool sample_options
      "''Be brief.''" sample_messages] ok
  have "last (yielded (createMessage sample_shared (run_text_and_tool\<lparr>JSON_parse := \<lambda>s. None\<rparr>)
        sample_options ''Be brief.'' sample_messages)) =
     last (yielded (createMessage sample_shared run_text_and_tool sample_options ''Be brief.''
        sample_messages))"
    by blast
  with ok y show ?thesis by simp
qed

end
